theory Spec2Isabelle
  imports Complex_Main "HOL-Library.Sublist"
begin

section \<open>Strings\<close>

text \<open>
  A JavaScript string is a sequence of code units. It is modelled as a \<^typ>\<open>string\<close>, one
  \<^typ>\<open>char\<close> per code unit; the accented letters of the catalogue (all below U+0100) are
  written \<open>CHR 0x..\<close>. Strings with a code unit from U+0100 on are outside the model; the
  functions modelled here treat such a code unit as a non-digit, and \<open>trim\<close> treats it as
  white space or not according to its Unicode class. A value of type
  \<open>string | null | undefined\<close> is a \<^typ>\<open>string option\<close>, \<open>None\<close> standing for both \<open>null\<close>
  and \<open>undefined\<close>.
\<close>

definition is_digit :: "char \<Rightarrow> bool" where
  \<comment> \<open>the complement of the regular expression class \<open>\D\<close>: the ten ASCII digits\<close>
  "is_digit c = (c \<in> set ''0123456789'')"

section \<open>The catalogue of units (\<open>lib/filiais.ts\<close>)\<close>

datatype FilialTipo = Matriz | Filial_tipo | Upa | Aps | Hospital | Escritorio | Clinica

record Filial =
  codigo :: nat
  nome :: string
  cnpj :: string
  cnpjFormatado :: string
  municipio :: string
  uf :: string
  tipo :: FilialTipo

definition CNPJ_MATRIZ :: string where
  "CNPJ_MATRIZ = ''11858570000133''"

definition FILIAIS :: "Filial list" where
  "FILIAIS = [
   \<lparr>codigo = 1, nome = ''IGH MATRIZ'',
    cnpj = ''11858570000133'', cnpjFormatado = ''11.858.570/0001-33'',
    municipio = ''Salvador'', uf = ''BA'', tipo = Matriz\<rparr>,
   \<lparr>codigo = 2, nome = ''Hospital de Capim Grosso'',
    cnpj = ''11858570000303'', cnpjFormatado = ''11.858.570/0003-03'',
    municipio = ''Capim Grosso'', uf = ''BA'', tipo = Hospital\<rparr>,
   \<lparr>codigo = 3, nome = ''HMI - Hospital Materno-Infantil'',
    cnpj = ''11858570000214'', cnpjFormatado = ''11.858.570/0002-14'',
    municipio = (''Goi'' @ [CHR 0xE2] @ ''nia''), uf = ''GO'', tipo = Hospital\<rparr>,
   \<lparr>codigo = 4, nome = (''HEAPA - Hospital Estadual de Aparecida de Goi'' @ [CHR 0xE2] @ ''nia''),
    cnpj = ''11858570000486'', cnpjFormatado = ''11.858.570/0004-86'',
    municipio = (''Aparecida de Goi'' @ [CHR 0xE2] @ ''nia''), uf = ''GO'', tipo = Hospital\<rparr>,
   \<lparr>codigo = 5, nome = (''Unidade Goi'' @ [CHR 0xE2] @ ''nia 5''),
    cnpj = ''11858570000567'', cnpjFormatado = ''11.858.570/0005-67'',
    municipio = (''Goi'' @ [CHR 0xE2] @ ''nia''), uf = ''GO'', tipo = Filial_tipo\<rparr>,
   \<lparr>codigo = 6, nome = ''Hospital de Casimiro de Abreu'',
    cnpj = ''11858570000648'', cnpjFormatado = ''11.858.570/0006-48'',
    municipio = ''Casimiro de Abreu'', uf = ''RJ'', tipo = Hospital\<rparr>,
   \<lparr>codigo = 7, nome = ''UPA Cabula'',
    cnpj = ''11858570001024'', cnpjFormatado = ''11.858.570/0010-24'',
    municipio = ''Salvador'', uf = ''BA'', tipo = Upa\<rparr>,
   \<lparr>codigo = 8, nome = (''UPA Cama'' @ [CHR 0xE7] @ ''ari''),
    cnpj = ''11858570000729'', cnpjFormatado = ''11.858.570/0007-29'',
    municipio = (''Cama'' @ [CHR 0xE7] @ ''ari''), uf = ''BA'', tipo = Upa\<rparr>,
   \<lparr>codigo = 9, nome = ''Hospital de Porto Seguro'',
    cnpj = ''11858570000800'', cnpjFormatado = ''11.858.570/0008-00'',
    municipio = ''Porto Seguro'', uf = ''BA'', tipo = Hospital\<rparr>,
   \<lparr>codigo = 10, nome = ''HRJL - Hospital Regional Justino Luz'',
    cnpj = ''11858570000990'', cnpjFormatado = ''11.858.570/0009-90'',
    municipio = ''Picos'', uf = ''PI'', tipo = Hospital\<rparr>,
   \<lparr>codigo = 11, nome = ''Cachoeiras de Macacu'',
    cnpj = ''11858570000133'', cnpjFormatado = ''11.858.570/0001-33'',
    municipio = ''Cachoeiras de Macacu'', uf = ''RJ'', tipo = Filial_tipo\<rparr>,
   \<lparr>codigo = 12, nome = ''UPA Caxias do Sul'',
    cnpj = ''11858570001105'', cnpjFormatado = ''11.858.570/0011-05'',
    municipio = ''Salvador'', uf = ''BA'', tipo = Upa\<rparr>,
   \<lparr>codigo = 13, nome = ''HIMABA'',
    cnpj = ''11858570001296'', cnpjFormatado = ''11.858.570/0012-96'',
    municipio = ''Vila Velha'', uf = ''ES'', tipo = Hospital\<rparr>,
   \<lparr>codigo = 14, nome = (''MJMMN - Maternidade Jos'' @ [CHR 0xE9] @ '' Maria de Magalh'' @ [CHR 0xE3] @ ''es Neto''),
    cnpj = ''11858570001377'', cnpjFormatado = ''11.858.570/0013-77'',
    municipio = ''Salvador'', uf = ''BA'', tipo = Hospital\<rparr>,
   \<lparr>codigo = 15, nome = ''Contagem'',
    cnpj = ''11858570001458'', cnpjFormatado = ''11.858.570/0014-58'',
    municipio = ''Contagem'', uf = ''MG'', tipo = Filial_tipo\<rparr>,
   \<lparr>codigo = 16, nome = ''Hospital de Mairi'',
    cnpj = ''11858570001610'', cnpjFormatado = ''11.858.570/0016-10'',
    municipio = ''Mairi'', uf = ''BA'', tipo = Hospital\<rparr>,
   \<lparr>codigo = 17, nome = ''Barra'',
    cnpj = ''11858570001539'', cnpjFormatado = ''11.858.570/0015-39'',
    municipio = ''Barra'', uf = ''BA'', tipo = Filial_tipo\<rparr>,
   \<lparr>codigo = 18, nome = ''UPA Boca do Rio'',
    cnpj = ''11858570000133'', cnpjFormatado = ''11.858.570/0001-33'',
    municipio = ''Salvador'', uf = ''BA'', tipo = Upa\<rparr>,
   \<lparr>codigo = 19, nome = (''UPA Pernambu'' @ [CHR 0xE9] @ ''s''),
    cnpj = ''11858570001881'', cnpjFormatado = ''11.858.570/0018-81'',
    municipio = ''Salvador'', uf = ''BA'', tipo = Upa\<rparr>,
   \<lparr>codigo = 20, nome = ''Hospital Pituba'',
    cnpj = ''11858570002268'', cnpjFormatado = ''11.858.570/0022-68'',
    municipio = ''Salvador'', uf = ''BA'', tipo = Hospital\<rparr>,
   \<lparr>codigo = 22, nome = (''UPA S'' @ [CHR 0xE3] @ ''o Crist'' @ [CHR 0xF3] @ ''v'' @ [CHR 0xE3] @ ''o''),
    cnpj = ''11858570002853'', cnpjFormatado = ''11.858.570/0028-53'',
    municipio = ''Salvador'', uf = ''BA'', tipo = Upa\<rparr>,
   \<lparr>codigo = 23, nome = (''APS Cama'' @ [CHR 0xE7] @ ''ari''),
    cnpj = ''11858570000133'', cnpjFormatado = ''11.858.570/0001-33'',
    municipio = (''Cama'' @ [CHR 0xE7] @ ''ari''), uf = ''BA'', tipo = Aps\<rparr>,
   \<lparr>codigo = 24, nome = ''Hospital Santa Maria'',
    cnpj = ''11858570001962'', cnpjFormatado = ''11.858.570/0019-62'',
    municipio = (''Goi'' @ [CHR 0xE2] @ ''nia''), uf = ''GO'', tipo = Hospital\<rparr>,
   \<lparr>codigo = 25, nome = (''APS Vit'' @ [CHR 0xF3] @ ''ria da Conquista''),
    cnpj = ''11858570000133'', cnpjFormatado = ''11.858.570/0001-33'',
    municipio = (''Vit'' @ [CHR 0xF3] @ ''ria da Conquista''), uf = ''BA'', tipo = Aps\<rparr>,
   \<lparr>codigo = 26, nome = (''Escrit'' @ [CHR 0xF3] @ ''rio Regional de Goi'' @ [CHR 0xE1] @ ''s''),
    cnpj = ''11858570001709'', cnpjFormatado = ''11.858.570/0017-09'',
    municipio = (''Goi'' @ [CHR 0xE2] @ ''nia''), uf = ''GO'', tipo = Escritorio\<rparr>,
   \<lparr>codigo = 28, nome = ''APS Natal'',
    cnpj = ''11858570000133'', cnpjFormatado = ''11.858.570/0001-33'',
    municipio = ''Natal'', uf = ''RN'', tipo = Aps\<rparr>,
   \<lparr>codigo = 32, nome = ''UPA Paripe'',
    cnpj = ''11858570002772'', cnpjFormatado = ''11.858.570/0027-72'',
    municipio = ''Salvador'', uf = ''BA'', tipo = Upa\<rparr>,
   \<lparr>codigo = 33, nome = (''UPA Piraj'' @ [CHR 0xE1]),
    cnpj = ''11858570000133'', cnpjFormatado = ''11.858.570/0001-33'',
    municipio = ''Salvador'', uf = ''BA'', tipo = Upa\<rparr>,
   \<lparr>codigo = 34, nome = ''APS Aracaju'',
    cnpj = ''11858570000133'', cnpjFormatado = ''11.858.570/0001-33'',
    municipio = ''Aracaju'', uf = ''SE'', tipo = Aps\<rparr>,
   \<lparr>codigo = 35, nome = (''Hospital de An'' @ [CHR 0xE1] @ ''polis''),
    cnpj = ''11858570000133'', cnpjFormatado = ''11.858.570/0001-33'',
    municipio = (''An'' @ [CHR 0xE1] @ ''polis''), uf = ''GO'', tipo = Hospital\<rparr>,
   \<lparr>codigo = 36, nome = (''Hospital Regional de Eun'' @ [CHR 0xE1] @ ''polis''),
    cnpj = ''11858570002187'', cnpjFormatado = ''11.858.570/0021-87'',
    municipio = (''Eun'' @ [CHR 0xE1] @ ''polis''), uf = ''BA'', tipo = Hospital\<rparr>,
   \<lparr>codigo = 37, nome = ''Nefrologia'',
    cnpj = ''11858570002004'', cnpjFormatado = ''11.858.570/0020-04'',
    municipio = ''Salvador'', uf = ''BA'', tipo = Clinica\<rparr>,
   \<lparr>codigo = 38, nome = ''Maternidade Maria de Lourdes Santana Nogueira'',
    cnpj = ''11858570002349'', cnpjFormatado = ''11.858.570/0023-49'',
    municipio = ''Aracaju'', uf = ''SE'', tipo = Hospital\<rparr>,
   \<lparr>codigo = 39, nome = ''IGH ADM'',
    cnpj = ''11858570002691'', cnpjFormatado = ''11.858.570/0026-91'',
    municipio = ''Salvador'', uf = ''BA'', tipo = Escritorio\<rparr>,
   \<lparr>codigo = 40, nome = (''Cl'' @ [CHR 0xED] @ ''nica IGH Healthcare''),
    cnpj = ''11858570002500'', cnpjFormatado = ''11.858.570/0025-00'',
    municipio = ''Salvador'', uf = ''BA'', tipo = Clinica\<rparr>]"

text \<open>
  The lookup map is filled at module initialisation by one pass over the catalogue:
  \<open>FILIAIS.forEach((filial) => { if (filial.cnpj !== CNPJ_MATRIZ || filial.codigo === 1)
  cnpjToFilialMap.set(filial.cnpj, filial); })\<close>. \<open>Map.set\<close> overwrites an existing key.
  \<open>buildIndex\<close> is that pass over an arbitrary catalogue.
\<close>

definition admitted :: "Filial \<Rightarrow> bool" where
  "admitted filial = (cnpj filial \<noteq> CNPJ_MATRIZ \<or> codigo filial = 1)"

definition buildIndex :: "Filial list \<Rightarrow> (string \<rightharpoonup> Filial)" where
  "buildIndex fs =
     fold (\<lambda>filial m. if admitted filial then m(cnpj filial \<mapsto> filial) else m) fs Map.empty"

definition cnpjToFilialMap :: "string \<rightharpoonup> Filial" where
  "cnpjToFilialMap = buildIndex FILIAIS"

definition normalizeCnpj :: "string option \<Rightarrow> string" where
  "normalizeCnpj c =
     (case c of
        None \<Rightarrow> ''''
      | Some s \<Rightarrow> if s = '''' then '''' else filter is_digit s)"

definition getFilialByCnpj :: "string option \<Rightarrow> Filial option" where
  "getFilialByCnpj cnpjDest =
     (let cnpjNormalizado = normalizeCnpj cnpjDest
      in if cnpjNormalizado = '''' then None else cnpjToFilialMap cnpjNormalizado)"

text \<open>
  \<open>getMatriz\<close> is \<open>FILIAIS.find((f) => f.codigo === 1)!\<close>. The \<open>!\<close> is a compile-time
  assertion only: when no unit has code 1 the call returns \<open>undefined\<close> (\<open>None\<close> here) and
  does not throw. \<open>getMatrizIn\<close> is the same search in an arbitrary catalogue.
\<close>

definition getMatrizIn :: "Filial list \<Rightarrow> Filial option" where
  "getMatrizIn fs = find (\<lambda>f. codigo f = 1) fs"

definition getMatriz :: "Filial option" where
  "getMatriz = getMatrizIn FILIAIS"

section \<open>The notes store (\<open>lib/store.ts\<close>)\<close>

text \<open>
  A \<open>Date\<close> is the number of milliseconds it holds. Of the extracted payload
  (\<open>NFeExtractResponse\<close>) the store reads \<open>data.dest?.doc\<close> at ingestion; every other field
  of the response is carried along unread and is the component \<open>other\<close>.
\<close>

type_synonym timestamp = nat

record NFeParty =
  doc :: "string option"
  party_nome :: "string option"
  party_uf :: "string option"
  party_municipio :: "string option"

record 'x NFeExtractResponse =
  dest :: "NFeParty option"
  other :: 'x

datatype NoteLaunchStatus = Pending | Launched | Rejected

text \<open>
  Every field of \<open>NoteLaunchInfo\<close> but \<open>status\<close> is optional. \<open>notes\<close> is a keyword of
  Isabelle: the field \<open>notes\<close> of \<open>NoteLaunchInfo\<close> is \<open>launch_notes\<close> here, and the field \<open>notes\<close>
  of the store is \<open>store_notes\<close>.
\<close>

record NoteLaunchInfo =
  status :: NoteLaunchStatus
  launchedAt :: "timestamp option"
  launchedBy :: "string option"
  rejectedAt :: "timestamp option"
  rejectedBy :: "string option"
  rejectionReason :: "string option"
  launch_notes :: "string option"

text \<open>
  \<open>NoteFilialInfo\<close> has the fields of \<open>Filial\<close>, so a note's \<open>filial\<close> is a \<^typ>\<open>Filial\<close>.
  The field \<open>id\<close> of the source is \<open>note_id\<close>. The type declares \<open>launchInfo\<close> mandatory, but
  the getters test \<open>!n.launchInfo\<close> and read \<open>n.launchInfo?.status\<close>: a note restored from
  storage may lack it, so it is optional here.
\<close>

record 'x ProcessedNote =
  note_id :: string
  filename :: string
  data :: "'x NFeExtractResponse"
  processedAt :: timestamp
  launchInfo :: "NoteLaunchInfo option"
  filial :: "Filial option"

record 'x NotesStore =
  store_notes :: "'x ProcessedNote list"
  selectedNoteId :: "string option"

definition initialStore :: "'x NotesStore" where
  "initialStore = \<lparr>store_notes = [], selectedNoteId = None\<rparr>"

definition identifyFilial :: "string option \<Rightarrow> Filial option" where
  "identifyFilial destCnpj =
     (case getFilialByCnpj destCnpj of
        None \<Rightarrow> None
      | Some f \<Rightarrow>
          Some \<lparr>codigo = codigo f, nome = nome f, cnpj = cnpj f,
                cnpjFormatado = cnpjFormatado f, municipio = municipio f,
                uf = uf f, tipo = tipo f\<rparr>)"

definition dest_doc :: "'x NFeExtractResponse \<Rightarrow> string option" where
  \<comment> \<open>\<open>data.dest?.doc\<close>\<close>
  "dest_doc d = (case dest d of None \<Rightarrow> None | Some p \<Rightarrow> doc p)"

definition pendingInfo :: NoteLaunchInfo where
  \<comment> \<open>the object literal \<open>{ status: "pending" }\<close>\<close>
  "pendingInfo =
     \<lparr>status = Pending, launchedAt = None, launchedBy = None, rejectedAt = None,
      rejectedBy = None, rejectionReason = None, launch_notes = None\<rparr>"

text \<open>
  \<open>addNote\<close> and \<open>addNotes\<close> build the same object literal, \<open>newNote\<close>. Its first two
  arguments are what \<open>generateId()\<close> and \<open>new Date()\<close> return for the note. In \<open>addNotes\<close>
  the \<open>k\<close>-th entry of the batch gets \<open>gen k\<close> and \<open>clock k\<close>.
\<close>

definition newNote ::
  "string \<Rightarrow> timestamp \<Rightarrow> string \<Rightarrow> 'x NFeExtractResponse \<Rightarrow> 'x ProcessedNote" where
  "newNote newId now fname d =
     \<lparr>note_id = newId, filename = fname, data = d, processedAt = now,
      launchInfo = Some pendingInfo, filial = identifyFilial (dest_doc d)\<rparr>"

definition addNote ::
  "string \<Rightarrow> timestamp \<Rightarrow> string \<Rightarrow> 'x NFeExtractResponse \<Rightarrow> 'x NotesStore \<Rightarrow> 'x NotesStore" where
  "addNote newId now fname d state = state\<lparr>store_notes := store_notes state @ [newNote newId now fname d]\<rparr>"

definition addNotes ::
  "(nat \<Rightarrow> string) \<Rightarrow> (nat \<Rightarrow> timestamp) \<Rightarrow> (string \<times> 'x NFeExtractResponse) list \<Rightarrow>
     'x NotesStore \<Rightarrow> 'x NotesStore" where
  "addNotes gen clock notesToAdd state =
     (let newNotes = map (\<lambda>(k, fname, d). newNote (gen k) (clock k) fname d)
                         (enumerate 0 notesToAdd)
      in state\<lparr>store_notes := store_notes state @ newNotes\<rparr>)"

definition removeNote :: "string \<Rightarrow> 'x NotesStore \<Rightarrow> 'x NotesStore" where
  "removeNote i state =
     \<lparr>store_notes = filter (\<lambda>n. note_id n \<noteq> i) (store_notes state),
      selectedNoteId = (if selectedNoteId state = Some i then None else selectedNoteId state)\<rparr>"

definition clearNotes :: "'x NotesStore \<Rightarrow> 'x NotesStore" where
  "clearNotes state = \<lparr>store_notes = [], selectedNoteId = None\<rparr>"

definition selectNote :: "string option \<Rightarrow> 'x NotesStore \<Rightarrow> 'x NotesStore" where
  "selectNote i state = state\<lparr>selectedNoteId := i\<rparr>"

definition getSelectedNote :: "'x NotesStore \<Rightarrow> 'x ProcessedNote option" where
  "getSelectedNote state = find (\<lambda>n. Some (note_id n) = selectedNoteId state) (store_notes state)"

text \<open>
  The three lifecycle actions map over the collection and rebuild every note whose id
  matches. \<open>...n.launchInfo\<close> copies the fields of the old record (none when it is missing);
  the literal then overrides some of them. \<open>now\<close> is the time \<open>new Date()\<close> reads during
  the call; it is read once for every note rebuilt, and the model takes the reads of one
  call to be equal. An absent \<open>operatorName\<close> or \<open>notes\<close> argument is \<open>None\<close>, and the field
  it is assigned to is then absent.
\<close>

definition spreadLaunchInfo :: "NoteLaunchInfo option \<Rightarrow> NoteLaunchInfo" where
  "spreadLaunchInfo li = (case li of None \<Rightarrow> pendingInfo | Some i \<Rightarrow> i)"

definition markAsLaunched ::
  "string \<Rightarrow> string option \<Rightarrow> string option \<Rightarrow> timestamp \<Rightarrow> 'x NotesStore \<Rightarrow> 'x NotesStore" where
  "markAsLaunched i operatorName obs now state =
     state\<lparr>store_notes :=
       map (\<lambda>n. if note_id n = i
                 then n\<lparr>launchInfo :=
                        Some ((spreadLaunchInfo (launchInfo n))
                                \<lparr>status := Launched, launchedAt := Some now,
                                 launchedBy := operatorName, launch_notes := obs\<rparr>)\<rparr>
                 else n)
           (store_notes state)\<rparr>"

definition markAsRejected ::
  "string \<Rightarrow> string \<Rightarrow> string option \<Rightarrow> timestamp \<Rightarrow> 'x NotesStore \<Rightarrow> 'x NotesStore" where
  "markAsRejected i reason operatorName now state =
     state\<lparr>store_notes :=
       map (\<lambda>n. if note_id n = i
                 then n\<lparr>launchInfo :=
                        Some ((spreadLaunchInfo (launchInfo n))
                                \<lparr>status := Rejected, rejectedAt := Some now,
                                 rejectedBy := operatorName, rejectionReason := Some reason\<rparr>)\<rparr>
                 else n)
           (store_notes state)\<rparr>"

definition resetLaunchStatus :: "string \<Rightarrow> 'x NotesStore \<Rightarrow> 'x NotesStore" where
  "resetLaunchStatus i state =
     state\<lparr>store_notes :=
       map (\<lambda>n. if note_id n = i then n\<lparr>launchInfo := Some pendingInfo\<rparr> else n)
           (store_notes state)\<rparr>"

definition getPendingNotes :: "'x NotesStore \<Rightarrow> 'x ProcessedNote list" where
  "getPendingNotes state =
     filter (\<lambda>n. map_option status (launchInfo n) = Some Pending \<or> launchInfo n = None)
            (store_notes state)"

definition getLaunchedNotes :: "'x NotesStore \<Rightarrow> 'x ProcessedNote list" where
  "getLaunchedNotes state =
     filter (\<lambda>n. map_option status (launchInfo n) = Some Launched) (store_notes state)"

definition getRejectedNotes :: "'x NotesStore \<Rightarrow> 'x ProcessedNote list" where
  "getRejectedNotes state =
     filter (\<lambda>n. map_option status (launchInfo n) = Some Rejected) (store_notes state)"

section \<open>Sequences of lifecycle transitions\<close>

datatype transition =
    Launch string "string option" "string option" timestamp
  | Reject string string "string option" timestamp
  | Reset string

fun apply_transition :: "transition \<Rightarrow> 'x NotesStore \<Rightarrow> 'x NotesStore" where
  "apply_transition (Launch i operatorName obs now) state = markAsLaunched i operatorName obs now state"
| "apply_transition (Reject i reason operatorName now) state = markAsRejected i reason operatorName now state"
| "apply_transition (Reset i) state = resetLaunchStatus i state"

definition run_transitions :: "transition list \<Rightarrow> 'x NotesStore \<Rightarrow> 'x NotesStore" where
  "run_transitions ts state = fold apply_transition ts state"

text \<open>
  The fields of a note that are not its lifecycle record: the note with \<open>launchInfo\<close> erased.
\<close>

definition non_lifecycle :: "'x ProcessedNote \<Rightarrow> 'x ProcessedNote" where
  "non_lifecycle n = n\<lparr>launchInfo := None\<rparr>"

text \<open>
  The invariant of the specification, in its words: exactly the fields of the current status
  are populated. \<open>launchedBy\<close>, \<open>notes\<close> and \<open>rejectedBy\<close> are optional arguments of the
  actions that set them, so for them "populated" asks nothing; for the fields of the other
  statuses "not populated" asks that they are absent.
\<close>

definition exactly_status_fields :: "NoteLaunchInfo \<Rightarrow> bool" where
  "exactly_status_fields li =
     (case status li of
        Pending \<Rightarrow>
          launchedAt li = None \<and> launchedBy li = None \<and> launch_notes li = None \<and>
          rejectedAt li = None \<and> rejectedBy li = None \<and> rejectionReason li = None
      | Launched \<Rightarrow>
          launchedAt li \<noteq> None \<and>
          rejectedAt li = None \<and> rejectedBy li = None \<and> rejectionReason li = None
      | Rejected \<Rightarrow>
          rejectedAt li \<noteq> None \<and> rejectionReason li \<noteq> None \<and>
          launchedAt li = None \<and> launchedBy li = None \<and> launch_notes li = None)"

text \<open>
  The state machine of the specification, on the lifecycle record of one note of id \<open>i\<close>. A
  launch makes the record launched with the time of the call and its optional operator and
  notes, and no rejection field; a reject makes it rejected with the time, the reason and
  the optional operator, and no launch field; a reset leaves the status pending and nothing
  else. A transition on another id leaves the record alone. \<open>lifecycle_after i ts li\<close> is
  the record after the transitions \<open>ts\<close>, from the record \<open>li\<close>.
\<close>

definition launchedInfo :: "string option \<Rightarrow> string option \<Rightarrow> timestamp \<Rightarrow> NoteLaunchInfo" where
  "launchedInfo operatorName obs now =
     \<lparr>status = Launched, launchedAt = Some now, launchedBy = operatorName, rejectedAt = None,
      rejectedBy = None, rejectionReason = None, launch_notes = obs\<rparr>"

definition rejectedInfo :: "string \<Rightarrow> string option \<Rightarrow> timestamp \<Rightarrow> NoteLaunchInfo" where
  "rejectedInfo reason operatorName now =
     \<lparr>status = Rejected, launchedAt = None, launchedBy = None, rejectedAt = Some now,
      rejectedBy = operatorName, rejectionReason = Some reason, launch_notes = None\<rparr>"

fun lifecycle_step :: "string \<Rightarrow> transition \<Rightarrow> NoteLaunchInfo \<Rightarrow> NoteLaunchInfo" where
  "lifecycle_step i (Launch j operatorName obs now) li =
     (if j = i then launchedInfo operatorName obs now else li)"
| "lifecycle_step i (Reject j reason operatorName now) li =
     (if j = i then rejectedInfo reason operatorName now else li)"
| "lifecycle_step i (Reset j) li = (if j = i then pendingInfo else li)"

definition lifecycle_after :: "string \<Rightarrow> transition list \<Rightarrow> NoteLaunchInfo \<Rightarrow> NoteLaunchInfo" where
  "lifecycle_after i ts li = fold (lifecycle_step i) ts li"

text \<open>
  The state machine has no edge between launched and rejected: the way from one to the
  other is through pending. \<open>crosses_edge i t st\<close> says that the transition \<open>t\<close>, applied to a
  note of id \<open>i\<close> and status \<open>st\<close>, would be such an edge: a launch of a rejected note or a
  reject of a launched one. Launching a launched note again and rejecting a rejected note
  again are no such edges. \<open>along_edges i ts li\<close> says that none of the transitions \<open>ts\<close>,
  applied in turn from the record \<open>li\<close>, is one. The store itself does not test the status.
\<close>

fun crosses_edge :: "string \<Rightarrow> transition \<Rightarrow> NoteLaunchStatus \<Rightarrow> bool" where
  "crosses_edge i (Launch j operatorName obs now) st = (j = i \<and> st = Rejected)"
| "crosses_edge i (Reject j reason operatorName now) st = (j = i \<and> st = Launched)"
| "crosses_edge i (Reset j) st = False"

fun along_edges :: "string \<Rightarrow> transition list \<Rightarrow> NoteLaunchInfo \<Rightarrow> bool" where
  "along_edges i [] li = True"
| "along_edges i (t # ts) li =
     (if crosses_edge i t (status li) then False else along_edges i ts (lifecycle_step i t li))"

text \<open>
  The same for a whole store. An \<open>action\<close> is a call of one of the actions of the store that
  change it, and \<open>run_actions\<close> applies a sequence of them. \<open>crossing a s\<close> says that the
  action \<open>a\<close> is a launch or a reject that, applied to the store \<open>s\<close>, would take some note
  along a missing edge: a launch whose id is that of a rejected note of \<open>s\<close>, or a reject
  whose id is that of a launched one. \<open>edge_free acts s\<close> says that none of the actions
  \<open>acts\<close>, applied in turn from \<open>s\<close>, is crossing. \<open>note_invariant\<close> is the invariant of a
  note: it has a lifecycle record, with exactly the fields of its status.
\<close>

datatype 'x action =
    AddNote string timestamp string "'x NFeExtractResponse"
  | AddNotes "nat \<Rightarrow> string" "nat \<Rightarrow> timestamp" "(string \<times> 'x NFeExtractResponse) list"
  | RemoveNote string
  | ClearNotes
  | SelectNote "string option"
  | Lifecycle transition

fun apply_action :: "'x action \<Rightarrow> 'x NotesStore \<Rightarrow> 'x NotesStore" where
  "apply_action (AddNote newId now fname d) state = addNote newId now fname d state"
| "apply_action (AddNotes gen clock notesToAdd) state = addNotes gen clock notesToAdd state"
| "apply_action (RemoveNote i) state = removeNote i state"
| "apply_action ClearNotes state = clearNotes state"
| "apply_action (SelectNote i) state = selectNote i state"
| "apply_action (Lifecycle t) state = apply_transition t state"

definition run_actions :: "'x action list \<Rightarrow> 'x NotesStore \<Rightarrow> 'x NotesStore" where
  "run_actions acts state = fold apply_action acts state"

fun crossing :: "'x action \<Rightarrow> 'x NotesStore \<Rightarrow> bool" where
  "crossing (Lifecycle t) state =
     list_ex (\<lambda>n. case launchInfo n of
                     None \<Rightarrow> False
                   | Some li \<Rightarrow> crosses_edge (note_id n) t (status li))
             (store_notes state)"
| "crossing (AddNote newId now fname d) state = False"
| "crossing (AddNotes gen clock notesToAdd) state = False"
| "crossing (RemoveNote i) state = False"
| "crossing ClearNotes state = False"
| "crossing (SelectNote i) state = False"

fun edge_free :: "'x action list \<Rightarrow> 'x NotesStore \<Rightarrow> bool" where
  "edge_free [] state = True"
| "edge_free (a # acts) state =
     (if crossing a state then False else edge_free acts (apply_action a state))"

definition note_invariant :: "'x ProcessedNote \<Rightarrow> bool" where
  "note_invariant n =
     (case launchInfo n of None \<Rightarrow> False | Some li \<Rightarrow> exactly_status_fields li)"

section \<open>Outcomes\<close>

text \<open>
  No action of the store and no function of the catalogue contains a \<open>throw\<close>; the actions
  return \<open>void\<close>. A call therefore always completes, with the state the action computes.
  The error kinds are those the specification names; they serve to state that no call
  produces them.
\<close>

datatype error = NotFound | InvalidArgument | ConfigurationInvariantViolation

definition perform :: "('s \<Rightarrow> 's) \<Rightarrow> 's \<Rightarrow> error + 's" where
  "perform action state = Inr (action state)"

definition initRegistry :: "Filial list \<Rightarrow> error + (string \<rightharpoonup> Filial)" where
  \<comment> \<open>module initialisation of \<open>lib/filiais.ts\<close> over a catalogue: the index is built, nothing is checked\<close>
  "initRegistry fs = Inr (buildIndex fs)"

section \<open>The reject handler of the launch page (\<open>app/lancamento/page.tsx\<close>)\<close>

text \<open>
  \<open>String.prototype.trim\<close> removes white space and line terminators from both ends. Among
  the code units below U+0100 these are U+0009 to U+000D, U+0020 and U+00A0.
\<close>

definition is_js_space :: "char \<Rightarrow> bool" where
  "is_js_space c =
     (c \<in> set [CHR 0x09, CHR 0x0A, CHR 0x0B, CHR 0x0C, CHR 0x0D, CHR 0x20, CHR 0xA0])"

definition trim :: "string \<Rightarrow> string" where
  "trim s = rev (dropWhile is_js_space (rev (dropWhile is_js_space s)))"

text \<open>
  The state the handler works on: the store and the component's \<open>rejectReason\<close>,
  \<open>showRejectModal\<close> and \<open>launchNotes\<close>. \<open>selectedNote\<close> is
  \<open>notes.find((n) => n.id === selectedNoteId)\<close>.
\<close>

record 'x LancamentoPage =
  store :: "'x NotesStore"
  rejectReason :: string
  showRejectModal :: bool
  launchNotes :: string

definition handleMarkAsRejected :: "timestamp \<Rightarrow> 'x LancamentoPage \<Rightarrow> 'x LancamentoPage" where
  "handleMarkAsRejected now pg =
     (case getSelectedNote (store pg) of
        None \<Rightarrow> pg
      | Some selectedNote \<Rightarrow>
          if trim (rejectReason pg) = '''' then pg
          else
            let s1 = markAsRejected (note_id selectedNote) (rejectReason pg) None now (store pg);
                pending = filter (\<lambda>n. note_id n \<noteq> note_id selectedNote) (getPendingNotes s1);
                s2 = (case pending of [] \<Rightarrow> s1 | p # _ \<Rightarrow> selectNote (Some (note_id p)) s1)
            in pg\<lparr>store := s2, rejectReason := '''', showRejectModal := False\<rparr>)"

section \<open>The progress percentage of the dashboard (\<open>app/page.tsx\<close>)\<close>

text \<open>
  \<open>Math.round((launchedNotes.length / notes.length) * 100)\<close> is computed in JavaScript
  numbers, that is in IEEE 754 double precision: the quotient is rounded to the nearest
  double, its product with 100 is rounded again, and \<open>Math.round\<close> (exact, ties upwards)
  is applied to that double. A non-negative finite double is \<open>Dbl m e\<close>, of value
  \<open>m * 2^e\<close>; a division by zero gives \<open>NaN\<close> or \<open>Infinity\<close>, not an exception.

  \<open>round_fraction a b\<close> is the double nearest to \<open>a / b\<close> for positive \<open>a\<close> and \<open>b\<close>, ties to
  the even significand: with \<open>E\<close> the binary exponent of the quotient
  (\<open>2^E \<le> a / b < 2^(E+1)\<close>), the quotient is rounded to a multiple of \<open>2^(E-52)\<close>. The
  exponent range is not bounded: the lengths of two arrays are below \<open>2^32\<close>, so the
  quotient and its product with 100 lie between \<open>2^-32\<close> and \<open>100\<close>, far from overflow and
  from the subnormal numbers.
\<close>

datatype js_number = Dbl nat int | NaN | PosInfinity

fun bits :: "nat \<Rightarrow> nat" where
  \<comment> \<open>the number of binary digits\<close>
  "bits n = (if n = 0 then 0 else Suc (bits (n div 2)))"

declare bits.simps [simp del]

definition round_half_even :: "nat \<Rightarrow> nat \<Rightarrow> nat" where
  \<comment> \<open>the integer nearest to \<open>n / d\<close>, ties to even\<close>
  "round_half_even n d =
     (let q = n div d; r = n mod d
      in if 2 * r < d then q else if d < 2 * r then q + 1 else if even q then q else q + 1)"

definition scaled :: "nat \<Rightarrow> nat \<Rightarrow> int \<Rightarrow> nat \<times> nat" where
  \<comment> \<open>numerator and denominator of \<open>a / (b * 2^e)\<close>\<close>
  "scaled a b e = (if 0 \<le> e then (a, b * 2 ^ nat e) else (a * 2 ^ nat (- e), b))"

definition round_fraction :: "nat \<Rightarrow> nat \<Rightarrow> js_number" where
  "round_fraction a b =
     (let d = int (bits a) - int (bits b);
          (n0, d0) = scaled a b d;
          E = (if d0 \<le> n0 then d else d - 1);
          (n, dd) = scaled a b (E - 52)
      in Dbl (round_half_even n dd) (E - 52))"

definition js_div :: "nat \<Rightarrow> nat \<Rightarrow> js_number" where
  \<comment> \<open>\<open>a / b\<close> for two array lengths\<close>
  "js_div a b =
     (if b = 0 then (if a = 0 then NaN else PosInfinity)
      else if a = 0 then Dbl 0 0
      else round_fraction a b)"

definition js_times :: "js_number \<Rightarrow> nat \<Rightarrow> js_number" where
  \<comment> \<open>\<open>x * c\<close> for an integer constant \<open>c\<close>\<close>
  "js_times x c =
     (case x of
        NaN \<Rightarrow> NaN
      | PosInfinity \<Rightarrow> (if c = 0 then NaN else PosInfinity)
      | Dbl m e \<Rightarrow>
          if m = 0 \<or> c = 0 then Dbl 0 0
          else if 0 \<le> e then round_fraction (m * c * 2 ^ nat e) 1
          else round_fraction (m * c) (2 ^ nat (- e)))"

definition Math_round :: "js_number \<Rightarrow> js_number" where
  \<comment> \<open>\<open>\<lfloor>x + 1/2\<rfloor>\<close>\<close>
  "Math_round x =
     (case x of
        NaN \<Rightarrow> NaN
      | PosInfinity \<Rightarrow> PosInfinity
      | Dbl m e \<Rightarrow>
          if 0 \<le> e then Dbl (m * 2 ^ nat e) 0
          else Dbl ((2 * m + 2 ^ nat (- e)) div 2 ^ (nat (- e) + 1)) 0)"



section \<open>Notions used to state the properties\<close>

definition headquartersCount :: "Filial list \<Rightarrow> nat" where
  \<comment> \<open>the number of units of type headquarters\<close>
  "headquartersCount fs = length (filter (\<lambda>f. tipo f = Matriz) fs)"

definition note_ids :: "'x NotesStore \<Rightarrow> string set" where
  "note_ids state = note_id ` set (store_notes state)"

text \<open>Sample data for the concrete instances.\<close>

definition payload_for :: "string option \<Rightarrow> unit NFeExtractResponse" where
  "payload_for c =
     \<lparr>dest = Some \<lparr>doc = c, party_nome = None, party_uf = None, party_municipio = None\<rparr>,
      other = ()\<rparr>"

definition one_note_store :: "unit NotesStore" where
  "one_note_store = addNote ''n1'' 1 ''a.xml'' (payload_for (Some ''11.858.570/0003-03'')) initialStore"

definition legacy_note :: "unit ProcessedNote" where
  \<comment> \<open>a note without lifecycle record\<close>
  "legacy_note =
     \<lparr>note_id = ''n0'', filename = ''old.xml'', data = payload_for None, processedAt = 0,
      launchInfo = None, filial = None\<rparr>"

definition four_note_store :: "unit NotesStore" where
  "four_note_store =
     markAsRejected ''n3'' ''dup'' None 9
       (markAsLaunched ''n2'' None None 8
          (addNote ''n3'' 3 ''c.xml'' (payload_for None)
             (addNote ''n2'' 2 ''b.xml'' (payload_for None)
                (addNote ''n1'' 1 ''a.xml'' (payload_for None)
                   \<lparr>store_notes = [legacy_note], selectedNoteId = Some ''n1''\<rparr>))))"



section \<open>The lookup index\<close>

lemma find_append_case:
  "find P (xs @ ys) = (case find P xs of None \<Rightarrow> find P ys | Some x \<Rightarrow> Some x)"
  by (induction xs) auto

lemma find_SomeD: "find P xs = Some x \<Longrightarrow> x \<in> set xs \<and> P x"
  by (induction xs) (auto split: if_splits)

lemma find_via_filter:
  "find P xs = (case filter P xs of [] \<Rightarrow> None | x # _ \<Rightarrow> Some x)"
  by (induction xs) auto

lemma fold_index_step:
  "fold (\<lambda>filial m. if admitted filial then m(cnpj filial \<mapsto> filial) else m) fs m0 k =
     (case find (\<lambda>f. cnpj f = k) (rev (filter admitted fs)) of
        None \<Rightarrow> m0 k
      | Some f \<Rightarrow> Some f)"
proof (induction fs arbitrary: m0)
  case Nil
  show ?case by simp
next
  case (Cons a fs)
  show ?case
    by (simp add: Cons.IH find_append_case split: option.split)
qed

lemma buildIndex_find:
  "buildIndex fs k = find (\<lambda>f. cnpj f = k) (rev (filter admitted fs))"
  by (simp add: buildIndex_def fold_index_step split: option.split)

lemma buildIndex_sound:
  assumes "buildIndex fs k = Some f"
  shows "f \<in> set fs \<and> cnpj f = k \<and> admitted f"
proof -
  from assms have "find (\<lambda>f. cnpj f = k) (rev (filter admitted fs)) = Some f"
    by (simp add: buildIndex_find)
  from find_SomeD [OF this] show ?thesis
    by simp
qed

lemma buildIndex_unique:
  assumes one: "filter (\<lambda>f. cnpj f = k) fs = [u]" and adm: "admitted u"
  shows "buildIndex fs k = Some u"
proof -
  have "filter (\<lambda>f. cnpj f = k) (rev (filter admitted fs)) =
        rev (filter admitted (filter (\<lambda>f. cnpj f = k) fs))"
    by (simp add: rev_filter conj_commute)
  also have "\<dots> = [u]"
    using one adm by simp
  finally have "filter (\<lambda>f. cnpj f = k) (rev (filter admitted fs)) = [u]" .
  then show ?thesis
    by (simp add: buildIndex_find find_via_filter)
qed

section \<open>Resolution of a tax id\<close>

lemma catalogue_matriz_sharers:
  "length (filter (\<lambda>f. cnpj f = CNPJ_MATRIZ) FILIAIS) = 9"
  by (simp add: FILIAIS_def CNPJ_MATRIZ_def)

lemma catalogue_cnpj_nonempty: "\<forall>f \<in> set FILIAIS. cnpj f \<noteq> ''''"
  by (simp add: FILIAIS_def)

lemma catalogue_matriz_entry:
  "cnpjToFilialMap CNPJ_MATRIZ = Some (hd FILIAIS)"
  by (simp add: cnpjToFilialMap_def buildIndex_find FILIAIS_def admitted_def CNPJ_MATRIZ_def)

lemma getMatriz_hd: "getMatriz = Some (hd FILIAIS)"
  by (simp add: getMatriz_def getMatrizIn_def FILIAIS_def)

lemma hd_FILIAIS:
  "codigo (hd FILIAIS) = 1 \<and> tipo (hd FILIAIS) = Matriz \<and> cnpj (hd FILIAIS) = CNPJ_MATRIZ"
  by (simp add: FILIAIS_def CNPJ_MATRIZ_def)

lemma catalogue_only_capim_grosso:
  "filter (\<lambda>f. cnpj f = ''11858570000303'') FILIAIS = [FILIAIS ! 1]"
  by (simp add: FILIAIS_def)

lemma catalogue_no_zero_id: "\<forall>f \<in> set FILIAIS. cnpj f \<noteq> ''00000000000000''"
  by (simp add: FILIAIS_def)

lemma catalogue_unique_admitted:
  assumes "filter (\<lambda>f. cnpj f = k) FILIAIS = [u]"
  shows "admitted u \<and> k \<noteq> ''''"
proof -
  have mem: "u \<in> set (filter (\<lambda>f. cnpj f = k) FILIAIS)"
    using assms by simp
  then have ku: "cnpj u = k" and uin: "u \<in> set FILIAIS"
    by simp_all
  have "k \<noteq> CNPJ_MATRIZ"
  proof
    assume "k = CNPJ_MATRIZ"
    with assms have "length (filter (\<lambda>f. cnpj f = CNPJ_MATRIZ) FILIAIS) = 1"
      by simp
    with catalogue_matriz_sharers show False by simp
  qed
  with ku have "admitted u" by (simp add: admitted_def)
  moreover from uin catalogue_cnpj_nonempty ku have "k \<noteq> ''''" by blast
  ultimately show ?thesis ..
qed

lemma getFilialByCnpj_matriz:
  assumes "normalizeCnpj t = CNPJ_MATRIZ"
  shows "getFilialByCnpj t = Some (hd FILIAIS)"
proof -
  have "CNPJ_MATRIZ \<noteq> ''''" by (simp add: CNPJ_MATRIZ_def)
  with assms show ?thesis
    by (simp add: getFilialByCnpj_def Let_def catalogue_matriz_entry)
qed

lemma getFilialByCnpj_unique:
  assumes "filter (\<lambda>f. cnpj f = normalizeCnpj t) FILIAIS = [u]"
  shows "getFilialByCnpj t = Some u"
  using catalogue_unique_admitted [OF assms] buildIndex_unique [OF assms]
  by (simp add: getFilialByCnpj_def Let_def cnpjToFilialMap_def)

lemma getFilialByCnpj_unknown:
  assumes "\<forall>f \<in> set FILIAIS. cnpj f \<noteq> normalizeCnpj t"
  shows "getFilialByCnpj t = None"
proof -
  have "cnpjToFilialMap (normalizeCnpj t) = None"
  proof (cases "cnpjToFilialMap (normalizeCnpj t)")
    case None
    then show ?thesis .
  next
    case (Some f)
    from buildIndex_sound [OF Some [unfolded cnpjToFilialMap_def]] assms
    show ?thesis by blast
  qed
  then show ?thesis
    by (simp add: getFilialByCnpj_def Let_def)
qed

lemma normalize_formatted_capim_grosso:
  "normalizeCnpj (Some ''11.858.570/0003-03'') = ''11858570000303''"
  by (simp add: normalizeCnpj_def is_digit_def)

lemma normalize_zero_id: "normalizeCnpj (Some ''00000000000000'') = ''00000000000000''"
  by (simp add: normalizeCnpj_def is_digit_def)

lemma resolve_capim_grosso: "getFilialByCnpj (Some ''11.858.570/0003-03'') = Some (FILIAIS ! 1)"
  by (rule getFilialByCnpj_unique)
     (simp add: normalize_formatted_capim_grosso catalogue_only_capim_grosso)

lemma resolve_zero_id: "getFilialByCnpj (Some ''00000000000000'') = None"
  by (rule getFilialByCnpj_unknown) (simp add: normalize_zero_id catalogue_no_zero_id)

lemma identifyFilial_eq: "identifyFilial c = getFilialByCnpj c"
  by (simp add: identifyFilial_def split: option.split)

text \<open>
  Claim C1. For every tax id \<open>t\<close> (a string, \<open>null\<close> or \<open>undefined\<close>): when its normalised
  form is the tax id of the headquarters, \<open>getFilialByCnpj\<close> returns the headquarters (the
  unit of code 1, the one \<open>getMatriz\<close> returns) and so none of the units that share that id;
  when exactly one unit \<open>u\<close> of the catalogue has the normalised form as its tax id, it
  returns \<open>u\<close>; when no unit of the catalogue has it, it returns \<open>null\<close>.
\<close>

theorem getFilialByCnpj_resolves:
  "(normalizeCnpj t = CNPJ_MATRIZ \<longrightarrow>
      (\<exists>m. getFilialByCnpj t = Some m \<and> getMatriz = Some m \<and> codigo m = 1 \<and> tipo m = Matriz))
   \<and> (filter (\<lambda>f. cnpj f = normalizeCnpj t) FILIAIS = [u] \<longrightarrow> getFilialByCnpj t = Some u)
   \<and> ((\<forall>f \<in> set FILIAIS. cnpj f \<noteq> normalizeCnpj t) \<longrightarrow> getFilialByCnpj t = None)"
proof (intro conjI impI)
  assume "normalizeCnpj t = CNPJ_MATRIZ"
  then have "getFilialByCnpj t = Some (hd FILIAIS)"
    by (rule getFilialByCnpj_matriz)
  with getMatriz_hd hd_FILIAIS
  show "\<exists>m. getFilialByCnpj t = Some m \<and> getMatriz = Some m \<and> codigo m = 1 \<and> tipo m = Matriz"
    by (intro exI [of _ "hd FILIAIS"]) simp
next
  assume "filter (\<lambda>f. cnpj f = normalizeCnpj t) FILIAIS = [u]"
  then show "getFilialByCnpj t = Some u"
    by (rule getFilialByCnpj_unique)
next
  assume "\<forall>f \<in> set FILIAIS. cnpj f \<noteq> normalizeCnpj t"
  then show "getFilialByCnpj t = None"
    by (rule getFilialByCnpj_unknown)
qed

theorem getFilialByCnpj_resolves_witness:
  "getFilialByCnpj (Some ''11.858.570/0001-33'') = getMatriz
   \<and> getFilialByCnpj (Some ''11.858.570/0003-03'') = Some (FILIAIS ! 1)
   \<and> getFilialByCnpj (Some ''00000000000000'') = None"
proof -
  have n1: "normalizeCnpj (Some ''11.858.570/0001-33'') = CNPJ_MATRIZ"
    by (simp add: normalizeCnpj_def is_digit_def CNPJ_MATRIZ_def)
  have f2: "filter (\<lambda>f. cnpj f = normalizeCnpj (Some ''11.858.570/0003-03'')) FILIAIS = [FILIAIS ! 1]"
    by (simp add: normalize_formatted_capim_grosso catalogue_only_capim_grosso)
  have f3: "\<forall>f \<in> set FILIAIS. cnpj f \<noteq> normalizeCnpj (Some ''00000000000000'')"
    by (simp add: normalize_zero_id catalogue_no_zero_id)
  from getFilialByCnpj_resolves [of "Some ''11.858.570/0001-33''" "FILIAIS ! 0"] n1
  have "getFilialByCnpj (Some ''11.858.570/0001-33'') = getMatriz"
    by auto
  moreover from getFilialByCnpj_resolves [of "Some ''11.858.570/0003-03''" "FILIAIS ! 1"] f2
  have "getFilialByCnpj (Some ''11.858.570/0003-03'') = Some (FILIAIS ! 1)"
    by blast
  moreover from getFilialByCnpj_resolves [of "Some ''00000000000000''" "FILIAIS ! 0"] f3
  have "getFilialByCnpj (Some ''00000000000000'') = None"
    by blast
  ultimately show ?thesis by blast
qed

section \<open>The lifecycle record along the state machine\<close>

lemma one_note_store_eq:
  "one_note_store =
     \<lparr>store_notes =
        [\<lparr>note_id = ''n1'', filename = ''a.xml'',
          data = payload_for (Some ''11.858.570/0003-03''), processedAt = 1,
          launchInfo = Some pendingInfo, filial = Some (FILIAIS ! 1)\<rparr>],
      selectedNoteId = None\<rparr>"
  by (simp add: one_note_store_def addNote_def newNote_def initialStore_def identifyFilial_eq
        dest_doc_def payload_for_def resolve_capim_grosso)

lemma exactly_status_fields_pendingInfo: "exactly_status_fields pendingInfo"
  by (simp add: exactly_status_fields_def pendingInfo_def)

lemma exactly_status_fields_launchedInfo: "exactly_status_fields (launchedInfo operatorName obs now)"
  by (simp add: exactly_status_fields_def launchedInfo_def)

lemma exactly_status_fields_rejectedInfo: "exactly_status_fields (rejectedInfo reason operatorName now)"
  by (simp add: exactly_status_fields_def rejectedInfo_def)

lemma exactly_status_fields_step:
  assumes "exactly_status_fields li"
  shows "exactly_status_fields (lifecycle_step i t li)"
  using assms
  by (cases t)
     (simp_all add: exactly_status_fields_pendingInfo exactly_status_fields_launchedInfo
        exactly_status_fields_rejectedInfo)

lemma exactly_status_fields_after:
  assumes "exactly_status_fields li"
  shows "exactly_status_fields (lifecycle_after i ts li)"
  using assms unfolding lifecycle_after_def
  by (induction ts arbitrary: li) (simp_all add: exactly_status_fields_step)

text \<open>
  What the spread and the override of the store make of a record with exactly the fields
  of its status.
\<close>

lemma launch_override:
  assumes "exactly_status_fields li" and "status li \<noteq> Rejected"
  shows "li\<lparr>status := Launched, launchedAt := Some now, launchedBy := operatorName,
            launch_notes := obs\<rparr> = launchedInfo operatorName obs now"
  using assms
  by (cases li; cases "status li") (simp_all add: exactly_status_fields_def launchedInfo_def)

lemma reject_override:
  assumes "exactly_status_fields li" and "status li \<noteq> Launched"
  shows "li\<lparr>status := Rejected, rejectedAt := Some now, rejectedBy := operatorName,
            rejectionReason := Some reason\<rparr> = rejectedInfo reason operatorName now"
  using assms
  by (cases li; cases "status li") (simp_all add: exactly_status_fields_def rejectedInfo_def)

lemma length_apply_transition:
  "length (store_notes (apply_transition t s)) = length (store_notes s)"
  by (cases t) (simp_all add: markAsLaunched_def markAsRejected_def resetLaunchStatus_def)

lemma note_id_apply_transition:
  assumes "k < length (store_notes s)"
  shows "note_id (store_notes (apply_transition t s) ! k) = note_id (store_notes s ! k)"
  using assms
  by (cases t) (simp_all add: markAsLaunched_def markAsRejected_def resetLaunchStatus_def)

lemma launchInfo_apply_transition:
  assumes k: "k < length (store_notes s)"
    and li: "launchInfo (store_notes s ! k) = Some li"
    and ex: "exactly_status_fields li"
    and ok: "\<not> crosses_edge (note_id (store_notes s ! k)) t (status li)"
  shows "launchInfo (store_notes (apply_transition t s) ! k) =
         Some (lifecycle_step (note_id (store_notes s ! k)) t li)"
proof (cases t)
  case (Launch j operatorName obs now)
  show ?thesis
  proof (cases "j = note_id (store_notes s ! k)")
    case True
    with ok Launch have "status li \<noteq> Rejected" by simp
    with ex have "li\<lparr>status := Launched, launchedAt := Some now, launchedBy := operatorName,
            launch_notes := obs\<rparr> = launchedInfo operatorName obs now"
      by (rule launch_override)
    with True Launch k li show ?thesis
      by (simp add: markAsLaunched_def spreadLaunchInfo_def)
  next
    case False
    with Launch k li show ?thesis
      by (simp add: markAsLaunched_def)
  qed
next
  case (Reject j reason operatorName now)
  show ?thesis
  proof (cases "j = note_id (store_notes s ! k)")
    case True
    with ok Reject have "status li \<noteq> Launched" by simp
    with ex have "li\<lparr>status := Rejected, rejectedAt := Some now, rejectedBy := operatorName,
            rejectionReason := Some reason\<rparr> = rejectedInfo reason operatorName now"
      by (rule reject_override)
    with True Reject k li show ?thesis
      by (simp add: markAsRejected_def spreadLaunchInfo_def)
  next
    case False
    with Reject k li show ?thesis
      by (simp add: markAsRejected_def)
  qed
next
  case (Reset j)
  with k li show ?thesis
    by (simp add: resetLaunchStatus_def)
qed

lemma launchInfo_run_transitions:
  assumes "k < length (store_notes s)"
    and "launchInfo (store_notes s ! k) = Some li"
    and "exactly_status_fields li"
    and "along_edges (note_id (store_notes s ! k)) ts li"
  shows "launchInfo (store_notes (run_transitions ts s) ! k) =
         Some (lifecycle_after (note_id (store_notes s ! k)) ts li)"
  using assms
proof (induction ts arbitrary: s li)
  case Nil
  then show ?case by (simp add: run_transitions_def lifecycle_after_def)
next
  case (Cons t ts)
  let ?i = "note_id (store_notes s ! k)"
  let ?s' = "apply_transition t s"
  from Cons.prems(4) have ok: "\<not> crosses_edge ?i t (status li)"
    and rest: "along_edges ?i ts (lifecycle_step ?i t li)"
    by (simp_all split: if_splits)
  from Cons.prems(1) have k': "k < length (store_notes ?s')"
    by (simp add: length_apply_transition)
  from Cons.prems(1) have id': "note_id (store_notes ?s' ! k) = ?i"
    by (rule note_id_apply_transition)
  from Cons.prems(1,2,3) ok
  have li': "launchInfo (store_notes ?s' ! k) = Some (lifecycle_step ?i t li)"
    by (rule launchInfo_apply_transition)
  from Cons.prems(3) have ex': "exactly_status_fields (lifecycle_step ?i t li)"
    by (rule exactly_status_fields_step)
  from rest have rest': "along_edges (note_id (store_notes ?s' ! k)) ts (lifecycle_step ?i t li)"
    by (simp add: id')
  from Cons.IH [OF k' li' ex' rest']
  show ?case
    by (simp add: run_transitions_def lifecycle_after_def id')
qed

lemma store_notes_addNotes:
  "store_notes (addNotes gen clock es s) =
     store_notes s @ map (\<lambda>(k, fname, d). newNote (gen k) (clock k) fname d) (enumerate 0 es)"
  by (simp add: addNotes_def)

lemma addNotes_nth:
  assumes "k < length es"
  shows "store_notes (addNotes gen clock es s) ! (length (store_notes s) + k) =
         newNote (gen k) (clock k) (fst (es ! k)) (snd (es ! k))"
proof -
  obtain fname d where e: "es ! k = (fname, d)" by (cases "es ! k")
  from assms have "enumerate 0 es ! k = (k, es ! k)"
    by (simp add: nth_enumerate_eq)
  with assms e show ?thesis
    by (simp add: store_notes_addNotes nth_append)
qed

text \<open>
  The invariant of a whole store: every action that is not crossing keeps it.
\<close>

lemma note_invariant_newNote: "note_invariant (newNote newId now fname d)"
  by (simp add: note_invariant_def newNote_def exactly_status_fields_pendingInfo)

lemma invariant_apply_transition:
  assumes inv: "list_all note_invariant (store_notes s)" and ok: "\<not> crossing (Lifecycle t) s"
  shows "list_all note_invariant (store_notes (apply_transition t s))"
proof -
  have "note_invariant (store_notes (apply_transition t s) ! k)"
    if k: "k < length (store_notes s)" for k
  proof -
    let ?n = "store_notes s ! k"
    from k have mem: "?n \<in> set (store_notes s)" by simp
    with inv have "note_invariant ?n" by (simp add: list_all_iff)
    then obtain li where li: "launchInfo ?n = Some li" and ex: "exactly_status_fields li"
      by (auto simp: note_invariant_def split: option.splits)
    from ok mem li have "\<not> crosses_edge (note_id ?n) t (status li)"
      by (auto simp: list_ex_iff)
    from launchInfo_apply_transition [OF k li ex this] ex
    show ?thesis by (simp add: note_invariant_def exactly_status_fields_step)
  qed
  then show ?thesis by (simp add: list_all_length length_apply_transition)
qed

lemma invariant_apply_action:
  assumes inv: "list_all note_invariant (store_notes s)" and ok: "\<not> crossing a s"
  shows "list_all note_invariant (store_notes (apply_action a s))"
proof (cases a)
  case (AddNote newId now fname d)
  with inv show ?thesis by (simp add: addNote_def note_invariant_newNote)
next
  case (AddNotes gen clock es)
  with inv show ?thesis
    by (auto simp: store_notes_addNotes list_all_iff note_invariant_newNote)
next
  case (RemoveNote i)
  with inv show ?thesis by (simp add: removeNote_def list_all_iff)
next
  case ClearNotes
  then show ?thesis by (simp add: clearNotes_def)
next
  case (SelectNote i)
  with inv show ?thesis by (simp add: selectNote_def)
next
  case (Lifecycle t)
  with ok have "\<not> crossing (Lifecycle t) s" by simp
  with inv have "list_all note_invariant (store_notes (apply_transition t s))"
    by (rule invariant_apply_transition)
  with Lifecycle show ?thesis by simp
qed

lemma invariant_run_actions:
  assumes "list_all note_invariant (store_notes s)" and "edge_free acts s"
  shows "list_all note_invariant (store_notes (run_actions acts s))"
  using assms
proof (induction acts arbitrary: s)
  case Nil
  then show ?case by (simp add: run_actions_def)
next
  case (Cons a acts)
  from Cons.prems(2) have ok: "\<not> crossing a s" and rest: "edge_free acts (apply_action a s)"
    by (simp_all split: if_splits)
  from Cons.prems(1) ok have "list_all note_invariant (store_notes (apply_action a s))"
    by (rule invariant_apply_action)
  from Cons.IH [OF this rest] show ?case by (simp add: run_actions_def)
qed

text \<open>
  Claim C2, as stated, fails: the store applies every transition whatever the status, and
  the spread \<open>...n.launchInfo\<close> keeps the fields of the old status. After ingestion, launch
  and reject the note is rejected and still has \<open>launchedAt\<close>; after ingestion, reject and
  launch it is launched and still has the rejection fields.
\<close>

theorem launch_then_reject_counterexample:
  "map launchInfo
     (store_notes
        (run_transitions [Launch ''n1'' None None 2, Reject ''n1'' ''dup'' None 3]
           (addNote ''n1'' 1 ''a.xml'' (payload_for None) initialStore))) =
     [Some \<lparr>status = Rejected, launchedAt = Some 2, launchedBy = None, rejectedAt = Some 3,
            rejectedBy = None, rejectionReason = Some ''dup'', launch_notes = None\<rparr>]
   \<and> \<not> exactly_status_fields
          \<lparr>status = Rejected, launchedAt = Some 2, launchedBy = None, rejectedAt = Some 3,
           rejectedBy = None, rejectionReason = Some ''dup'', launch_notes = None\<rparr>
   \<and> map launchInfo
     (store_notes
        (run_transitions [Reject ''n1'' ''dup'' None 2, Launch ''n1'' None None 3]
           (addNote ''n1'' 1 ''a.xml'' (payload_for None) initialStore))) =
     [Some \<lparr>status = Launched, launchedAt = Some 3, launchedBy = None, rejectedAt = Some 2,
            rejectedBy = None, rejectionReason = Some ''dup'', launch_notes = None\<rparr>]
   \<and> \<not> exactly_status_fields
          \<lparr>status = Launched, launchedAt = Some 3, launchedBy = None, rejectedAt = Some 2,
           rejectedBy = None, rejectionReason = Some ''dup'', launch_notes = None\<rparr>"
  by (simp add: run_transitions_def addNote_def newNote_def initialStore_def markAsLaunched_def
        markAsRejected_def spreadLaunchInfo_def pendingInfo_def exactly_status_fields_def)

text \<open>
  Claim C2, amended. The invariant holds where no document is launched while rejected nor
  rejected while launched; launching a launched document again, or rejecting a rejected one
  again, is allowed.

  In every store reached from the empty one by a sequence of actions of the store
  (ingestion of one document or of a batch, removal, clearing, selection, launch, reject,
  reset) in which no launch meets a rejected document of its id and no reject a launched
  one, every document has a lifecycle record with exactly the fields of its status.

  For every document created by ingestion (\<open>addNote\<close>, or an entry of \<open>addNotes\<close>) into any
  store, and every sequence of launch, reject and reset operations, on any ids, in which
  the document is never launched while rejected nor rejected while launched, the lifecycle
  record of the document afterwards is the one the state machine gives, with exactly the
  fields of its status: after a launch it is launched with \<open>launchedAt\<close> the time of that
  launch, \<open>launchedBy\<close> and \<open>notes\<close> the optional arguments of that launch, and no rejection
  field; after a reject it is rejected with \<open>rejectedAt\<close>, \<open>rejectionReason\<close> and the optional
  \<open>rejectedBy\<close> of that reject, and no launch field; after a reset, and before any
  transition, it is pending with no status-specific field; a transition on another id
  leaves it as it is.
\<close>

theorem lifecycle_fields_along_edges:
  "(edge_free acts initialStore \<longrightarrow>
      (\<forall>n \<in> set (store_notes (run_actions acts initialStore)).
          \<exists>li. launchInfo n = Some li \<and> exactly_status_fields li))
   \<and> (along_edges newId ts pendingInfo \<longrightarrow>
      launchInfo (store_notes (run_transitions ts (addNote newId now fname d s)) !
                    length (store_notes s)) =
        Some (lifecycle_after newId ts pendingInfo))
   \<and> (k < length es \<and> along_edges (gen k) ts pendingInfo \<longrightarrow>
      launchInfo (store_notes (run_transitions ts (addNotes gen clock es s)) !
                    (length (store_notes s) + k)) =
        Some (lifecycle_after (gen k) ts pendingInfo))
   \<and> exactly_status_fields (lifecycle_after i ts pendingInfo)
   \<and> lifecycle_after i [] pendingInfo = pendingInfo
   \<and> lifecycle_after i (ts @ [Launch i operatorName obs tm]) pendingInfo =
       \<lparr>status = Launched, launchedAt = Some tm, launchedBy = operatorName, rejectedAt = None,
        rejectedBy = None, rejectionReason = None, launch_notes = obs\<rparr>
   \<and> lifecycle_after i (ts @ [Reject i reason operatorName tm]) pendingInfo =
       \<lparr>status = Rejected, launchedAt = None, launchedBy = None, rejectedAt = Some tm,
        rejectedBy = operatorName, rejectionReason = Some reason, launch_notes = None\<rparr>
   \<and> lifecycle_after i (ts @ [Reset i]) pendingInfo = pendingInfo
   \<and> (target \<noteq> i \<longrightarrow>
        lifecycle_after i (ts @ [Launch target operatorName obs tm]) pendingInfo =
          lifecycle_after i ts pendingInfo
        \<and> lifecycle_after i (ts @ [Reject target reason operatorName tm]) pendingInfo =
          lifecycle_after i ts pendingInfo
        \<and> lifecycle_after i (ts @ [Reset target]) pendingInfo = lifecycle_after i ts pendingInfo)"
proof (intro conjI impI)
  assume free: "edge_free acts initialStore"
  have "list_all note_invariant (store_notes initialStore)"
    by (simp add: initialStore_def)
  from invariant_run_actions [OF this free]
  show "\<forall>n \<in> set (store_notes (run_actions acts initialStore)).
          \<exists>li. launchInfo n = Some li \<and> exactly_status_fields li"
    by (auto simp: list_all_iff note_invariant_def split: option.splits)
next
  assume edges: "along_edges newId ts pendingInfo"
  let ?s = "addNote newId now fname d s"
  let ?k = "length (store_notes s)"
  have k: "?k < length (store_notes ?s)" by (simp add: addNote_def)
  have n: "store_notes ?s ! ?k = newNote newId now fname d" by (simp add: addNote_def)
  have li: "launchInfo (store_notes ?s ! ?k) = Some pendingInfo"
    by (simp add: n newNote_def)
  have i: "note_id (store_notes ?s ! ?k) = newId"
    by (simp add: n newNote_def)
  from edges have "along_edges (note_id (store_notes ?s ! ?k)) ts pendingInfo"
    by (simp add: i)
  from launchInfo_run_transitions [OF k li exactly_status_fields_pendingInfo this]
  show "launchInfo (store_notes (run_transitions ts ?s) ! ?k) =
        Some (lifecycle_after newId ts pendingInfo)"
    by (simp add: i)
next
  assume "k < length es \<and> along_edges (gen k) ts pendingInfo"
  then have kes: "k < length es" and edges: "along_edges (gen k) ts pendingInfo"
    by simp_all
  let ?s = "addNotes gen clock es s"
  let ?k = "length (store_notes s) + k"
  from kes have k: "?k < length (store_notes ?s)" by (simp add: store_notes_addNotes)
  from kes have n: "store_notes ?s ! ?k = newNote (gen k) (clock k) (fst (es ! k)) (snd (es ! k))"
    by (rule addNotes_nth)
  have li: "launchInfo (store_notes ?s ! ?k) = Some pendingInfo"
    by (simp add: n newNote_def)
  have i: "note_id (store_notes ?s ! ?k) = gen k"
    by (simp add: n newNote_def)
  from edges have "along_edges (note_id (store_notes ?s ! ?k)) ts pendingInfo"
    by (simp add: i)
  from launchInfo_run_transitions [OF k li exactly_status_fields_pendingInfo this]
  show "launchInfo (store_notes (run_transitions ts ?s) ! ?k) =
        Some (lifecycle_after (gen k) ts pendingInfo)"
    by (simp add: i)
next
  show "exactly_status_fields (lifecycle_after i ts pendingInfo)"
    by (rule exactly_status_fields_after) (rule exactly_status_fields_pendingInfo)
  show "lifecycle_after i [] pendingInfo = pendingInfo"
    by (simp add: lifecycle_after_def)
  show "lifecycle_after i (ts @ [Launch i operatorName obs tm]) pendingInfo =
       \<lparr>status = Launched, launchedAt = Some tm, launchedBy = operatorName, rejectedAt = None,
        rejectedBy = None, rejectionReason = None, launch_notes = obs\<rparr>"
    by (simp add: lifecycle_after_def launchedInfo_def)
  show "lifecycle_after i (ts @ [Reject i reason operatorName tm]) pendingInfo =
       \<lparr>status = Rejected, launchedAt = None, launchedBy = None, rejectedAt = Some tm,
        rejectedBy = operatorName, rejectionReason = Some reason, launch_notes = None\<rparr>"
    by (simp add: lifecycle_after_def rejectedInfo_def)
  show "lifecycle_after i (ts @ [Reset i]) pendingInfo = pendingInfo"
    by (simp add: lifecycle_after_def)
next
  assume "target \<noteq> i"
  then show "lifecycle_after i (ts @ [Launch target operatorName obs tm]) pendingInfo =
          lifecycle_after i ts pendingInfo"
    and "lifecycle_after i (ts @ [Reject target reason operatorName tm]) pendingInfo =
          lifecycle_after i ts pendingInfo"
    and "lifecycle_after i (ts @ [Reset target]) pendingInfo = lifecycle_after i ts pendingInfo"
    by (simp_all add: lifecycle_after_def)
qed

theorem lifecycle_fields_along_edges_witness:
  "edge_free
     [AddNote ''n1'' 1 ''a.xml'' (payload_for None),
      Lifecycle (Launch ''n1'' None (Some ''ok'') 2),
      AddNotes (nth [''n2'', ''n3'']) (nth [3, 3])
        [(''b.xml'', payload_for None), (''c.xml'', payload_for None)],
      SelectNote (Some ''n2''),
      Lifecycle (Launch ''n1'' (Some ''ana'') None 4),
      RemoveNote ''n3'',
      Lifecycle (Reset ''n1''),
      Lifecycle (Reject ''n1'' ''dup'' None 5)]
     (initialStore :: unit NotesStore)
   \<and> map (map_option status \<circ> launchInfo)
       (store_notes
          (run_actions
             [AddNote ''n1'' 1 ''a.xml'' (payload_for None),
              Lifecycle (Launch ''n1'' None (Some ''ok'') 2),
              AddNotes (nth [''n2'', ''n3'']) (nth [3, 3])
                [(''b.xml'', payload_for None), (''c.xml'', payload_for None)],
              SelectNote (Some ''n2''),
              Lifecycle (Launch ''n1'' (Some ''ana'') None 4),
              RemoveNote ''n3'',
              Lifecycle (Reset ''n1''),
              Lifecycle (Reject ''n1'' ''dup'' None 5)]
             (initialStore :: unit NotesStore))) = [Some Rejected, Some Pending]
   \<and> list_all note_invariant
       (store_notes
          (run_actions
             [AddNote ''n1'' 1 ''a.xml'' (payload_for None),
              Lifecycle (Launch ''n1'' None (Some ''ok'') 2),
              AddNotes (nth [''n2'', ''n3'']) (nth [3, 3])
                [(''b.xml'', payload_for None), (''c.xml'', payload_for None)],
              SelectNote (Some ''n2''),
              Lifecycle (Launch ''n1'' (Some ''ana'') None 4),
              RemoveNote ''n3'',
              Lifecycle (Reset ''n1''),
              Lifecycle (Reject ''n1'' ''dup'' None 5)]
             (initialStore :: unit NotesStore)))
   \<and> launchInfo
     (store_notes
        (run_transitions
           [Launch ''n2'' (Some ''ana'') None 5, Launch ''n2'' None (Some ''ok'') 6,
            Reject ''n1'' ''other'' None 7, Reset ''n2'', Reject ''n2'' ''dup'' (Some ''ana'') 8,
            Reject ''n2'' ''dup2'' None 9]
           (addNote ''n2'' 2 ''b.xml'' (payload_for None) one_note_store)) ! 1) =
     Some \<lparr>status = Rejected, launchedAt = None, launchedBy = None, rejectedAt = Some 9,
           rejectedBy = None, rejectionReason = Some ''dup2'', launch_notes = None\<rparr>
   \<and> launchInfo
     (store_notes
        (run_transitions [Launch ''id1'' None (Some ''ok'') 6, Launch ''id1'' (Some ''ana'') None 7]
           (addNotes (nth [''id0'', ''id1'']) (nth [10, 11])
              [(''a.xml'', payload_for None), (''b.xml'', payload_for None)] initialStore)) ! 1) =
     Some \<lparr>status = Launched, launchedAt = Some 7, launchedBy = Some ''ana'', rejectedAt = None,
           rejectedBy = None, rejectionReason = None, launch_notes = None\<rparr>
   \<and> exactly_status_fields
       \<lparr>status = Rejected, launchedAt = None, launchedBy = None, rejectedAt = Some 9,
        rejectedBy = None, rejectionReason = Some ''dup2'', launch_notes = None\<rparr>"
proof -
  let ?ts = "[Launch ''n2'' (Some ''ana'') None 5, Launch ''n2'' None (Some ''ok'') 6,
            Reject ''n1'' ''other'' None 7, Reset ''n2'', Reject ''n2'' ''dup'' (Some ''ana'') 8,
            Reject ''n2'' ''dup2'' None 9]"
  let ?r = "\<lparr>status = Rejected, launchedAt = None, launchedBy = None, rejectedAt = Some 9,
           rejectedBy = None, rejectionReason = Some ''dup2'', launch_notes = None\<rparr>"
  have e1: "along_edges ''n2'' ?ts pendingInfo"
    by (simp add: pendingInfo_def launchedInfo_def rejectedInfo_def)
  have a1: "lifecycle_after ''n2'' ?ts pendingInfo = ?r"
    by (simp add: lifecycle_after_def rejectedInfo_def)
  have len: "length (store_notes one_note_store) = 1"
    by (simp add: one_note_store_eq)
  let ?acts = "[AddNote ''n1'' 1 ''a.xml'' (payload_for None),
      Lifecycle (Launch ''n1'' None (Some ''ok'') 2),
      AddNotes (nth [''n2'', ''n3'']) (nth [3, 3])
        [(''b.xml'', payload_for None), (''c.xml'', payload_for None)],
      SelectNote (Some ''n2''),
      Lifecycle (Launch ''n1'' (Some ''ana'') None 4),
      RemoveNote ''n3'',
      Lifecycle (Reset ''n1''),
      Lifecycle (Reject ''n1'' ''dup'' None 5)] :: unit action list"
  have e0: "edge_free ?acts initialStore"
    by (simp add: initialStore_def addNote_def addNotes_def newNote_def markAsLaunched_def
          markAsRejected_def resetLaunchStatus_def removeNote_def selectNote_def
          spreadLaunchInfo_def pendingInfo_def)
  have a0: "map (map_option status \<circ> launchInfo) (store_notes (run_actions ?acts initialStore)) =
            [Some Rejected, Some Pending]"
    by (simp add: run_actions_def initialStore_def addNote_def addNotes_def newNote_def
          markAsLaunched_def markAsRejected_def resetLaunchStatus_def removeNote_def
          selectNote_def spreadLaunchInfo_def pendingInfo_def)
  from lifecycle_fields_along_edges
         [of ?acts "''n2''" ?ts 2 "''b.xml''" "payload_for None" one_note_store
             0 "[]" "nth []" "nth []" "''n2''" None None 0 "''x''" "''y''"]
       e0
  have "\<forall>n \<in> set (store_notes (run_actions ?acts initialStore)).
          \<exists>li. launchInfo n = Some li \<and> exactly_status_fields li"
    by blast
  then have c0: "list_all note_invariant (store_notes (run_actions ?acts initialStore))"
    by (auto simp: list_all_iff note_invariant_def)
  from lifecycle_fields_along_edges
         [of ?acts "''n2''" ?ts 2 "''b.xml''" "payload_for None" one_note_store
             0 "[]" "nth []" "nth []" "''n2''" None None 0 "''x''" "''y''"]
       e1
  have "launchInfo (store_notes (run_transitions ?ts
            (addNote ''n2'' 2 ''b.xml'' (payload_for None) one_note_store)) !
              length (store_notes one_note_store)) = Some (lifecycle_after ''n2'' ?ts pendingInfo)"
    and "exactly_status_fields (lifecycle_after ''n2'' ?ts pendingInfo)"
    by blast+
  then have c1: "launchInfo (store_notes (run_transitions ?ts
            (addNote ''n2'' 2 ''b.xml'' (payload_for None) one_note_store)) ! 1) = Some ?r"
    and c3: "exactly_status_fields ?r"
    by (simp_all add: len a1)
  let ?ts2 = "[Launch ''id1'' None (Some ''ok'') 6, Launch ''id1'' (Some ''ana'') None 7]"
  let ?es = "[(''a.xml'', payload_for None), (''b.xml'', payload_for None)]"
  have e2: "along_edges (nth [''id0'', ''id1''] 1) ?ts2 pendingInfo"
    by (simp add: pendingInfo_def launchedInfo_def)
  have a2: "lifecycle_after ''id1'' ?ts2 pendingInfo =
      \<lparr>status = Launched, launchedAt = Some 7, launchedBy = Some ''ana'', rejectedAt = None,
           rejectedBy = None, rejectionReason = None, launch_notes = None\<rparr>"
    by (simp add: lifecycle_after_def launchedInfo_def)
  have k2: "(1::nat) < length ?es" by simp
  from lifecycle_fields_along_edges
         [of ?acts "''n2''" ?ts2 2 "''b.xml''" "payload_for None" "initialStore :: unit NotesStore"
             1 ?es "nth [''id0'', ''id1'']" "nth [10, 11]" "''n2''" None None 0 "''x''" "''y''"]
       e2 k2
  have "launchInfo (store_notes (run_transitions ?ts2
            (addNotes (nth [''id0'', ''id1'']) (nth [10, 11]) ?es initialStore)) !
              (length (store_notes (initialStore :: unit NotesStore)) + 1)) =
        Some (lifecycle_after (nth [''id0'', ''id1''] 1) ?ts2 pendingInfo)"
    by blast
  then have c2: "launchInfo (store_notes (run_transitions ?ts2
            (addNotes (nth [''id0'', ''id1'']) (nth [10, 11]) ?es initialStore)) ! 1) =
      Some \<lparr>status = Launched, launchedAt = Some 7, launchedBy = Some ''ana'', rejectedAt = None,
           rejectedBy = None, rejectionReason = None, launch_notes = None\<rparr>"
    by (simp add: a2 initialStore_def)
  from e0 a0 c0 c1 c2 c3 show ?thesis by blast
qed

section \<open>Rejection with a blank reason\<close>

lemma trim_blank:
  assumes "list_all is_js_space r"
  shows "trim r = []"
  using assms by (auto simp: trim_def list_all_iff dest: set_dropWhileD)

lemma markAsRejected_sets:
  assumes "n \<in> set (store_notes (markAsRejected i reason operatorName now s))" and "note_id n = i"
  shows "\<exists>li. launchInfo n = Some li \<and> status li = Rejected \<and> rejectionReason li = Some reason"
proof -
  from assms(1) obtain m where "m \<in> set (store_notes s)"
    and n: "n = (if note_id m = i
                 then m\<lparr>launchInfo :=
                        Some ((spreadLaunchInfo (launchInfo m))
                                \<lparr>status := Rejected, rejectedAt := Some now,
                                 rejectedBy := operatorName, rejectionReason := Some reason\<rparr>)\<rparr>
                 else m)"
    by (auto simp: markAsRejected_def)
  show ?thesis
  proof (cases "note_id m = i")
    case True
    with n show ?thesis by simp
  next
    case False
    with n assms(2) show ?thesis by simp
  qed
qed

text \<open>
  Claim C3, as stated, fails: \<open>markAsRejected\<close> does not look at the reason. With the empty
  reason it completes and the note becomes rejected, with \<open>rejectionReason\<close> the empty
  string.
\<close>

theorem reject_empty_reason_counterexample:
  "map launchInfo (store_notes one_note_store) = [Some pendingInfo]
   \<and> perform (markAsRejected ''n1'' '''' None 5) one_note_store \<noteq> Inl InvalidArgument
   \<and> map launchInfo (store_notes (markAsRejected ''n1'' '''' None 5 one_note_store)) =
       [Some \<lparr>status = Rejected, launchedAt = None, launchedBy = None, rejectedAt = Some 5,
              rejectedBy = None, rejectionReason = Some '''', launch_notes = None\<rparr>]"
  by (simp add: one_note_store_eq perform_def markAsRejected_def spreadLaunchInfo_def
        pendingInfo_def)

text \<open>
  Claim C3, amended. The check of the reason is in the reject handler of the launch page,
  not in the store: for every reason that is empty or consists of white space only,
  \<open>handleMarkAsRejected\<close> does not call the store and leaves the store, the reason and the
  modal as they are; it signals no error. The store's \<open>markAsRejected\<close> itself accepts every
  reason: it always completes, and every note of the given id is then rejected with that
  reason.
\<close>

theorem blank_reason_guard_is_in_handler:
  "(list_all is_js_space (rejectReason pg) \<longrightarrow> handleMarkAsRejected now pg = pg)
   \<and> (\<forall>n \<in> set (store_notes (markAsRejected i reason operatorName now' s)). note_id n = i \<longrightarrow>
         (\<exists>li. launchInfo n = Some li \<and> status li = Rejected \<and> rejectionReason li = Some reason))
   \<and> perform (markAsRejected i reason operatorName now') s = Inr (markAsRejected i reason operatorName now' s)"
proof (intro conjI impI ballI)
  assume "list_all is_js_space (rejectReason pg)"
  then have "trim (rejectReason pg) = []" by (rule trim_blank)
  then show "handleMarkAsRejected now pg = pg"
    by (simp add: handleMarkAsRejected_def split: option.split)
next
  fix n
  assume "n \<in> set (store_notes (markAsRejected i reason operatorName now' s))" and "note_id n = i"
  then show "\<exists>li. launchInfo n = Some li \<and> status li = Rejected \<and> rejectionReason li = Some reason"
    by (rule markAsRejected_sets)
next
  show "perform (markAsRejected i reason operatorName now') s =
        Inr (markAsRejected i reason operatorName now' s)"
    by (simp add: perform_def)
qed

theorem blank_reason_guard_is_in_handler_witness:
  "handleMarkAsRejected 5
     \<lparr>store = selectNote (Some ''n1'') one_note_store, rejectReason = [CHR 0x20, CHR 0x09, CHR 0x20],
      showRejectModal = True, launchNotes = ''''\<rparr> =
     \<lparr>store = selectNote (Some ''n1'') one_note_store, rejectReason = [CHR 0x20, CHR 0x09, CHR 0x20],
      showRejectModal = True, launchNotes = ''''\<rparr>
   \<and> map (map_option status \<circ> launchInfo)
       (store_notes (store (handleMarkAsRejected 5
          \<lparr>store = selectNote (Some ''n1'') one_note_store, rejectReason = ''dup'',
           showRejectModal = True, launchNotes = ''''\<rparr>))) = [Some Rejected]
   \<and> map (map_option rejectionReason \<circ> launchInfo)
       (store_notes (markAsRejected ''n1'' '''' None 5 one_note_store)) = [Some (Some '''')]"
proof -
  let ?pg = "\<lparr>store = selectNote (Some ''n1'') one_note_store,
              rejectReason = [CHR 0x20, CHR 0x09, CHR 0x20],
              showRejectModal = True, launchNotes = ''''\<rparr>"
  have blank: "list_all is_js_space (rejectReason ?pg)"
    by (simp add: is_js_space_def)
  from blank_reason_guard_is_in_handler [of ?pg 5 "''n1''" "''''" None 5 one_note_store] blank
  have "handleMarkAsRejected 5 ?pg = ?pg"
    by blast
  moreover have "map (map_option status \<circ> launchInfo)
       (store_notes (store (handleMarkAsRejected 5
          \<lparr>store = selectNote (Some ''n1'') one_note_store, rejectReason = ''dup'',
           showRejectModal = True, launchNotes = ''''\<rparr>))) = [Some Rejected]"
    by (simp add: handleMarkAsRejected_def getSelectedNote_def selectNote_def one_note_store_eq
          trim_def is_js_space_def markAsRejected_def getPendingNotes_def Let_def)
  moreover have "map (map_option rejectionReason \<circ> launchInfo)
       (store_notes (markAsRejected ''n1'' '''' None 5 one_note_store)) = [Some (Some '''')]"
    by (simp add: one_note_store_eq markAsRejected_def)
  ultimately show ?thesis by blast
qed

section \<open>Batch ingestion\<close>

lemma dest_doc_payload_for: "dest_doc (payload_for c) = c"
  by (simp add: dest_doc_def payload_for_def)

text \<open>
  Claim C4, as stated, fails: \<open>addNotes\<close> has no per-entry failure. An entry whose buyer
  tax id resolves to no unit is ingested like the others, with \<open>filial\<close> \<open>null\<close>. A batch of
  two entries of which the second does not resolve yields two notes.
\<close>

theorem batch_with_unresolved_entry_counterexample:
  "getFilialByCnpj (dest_doc (payload_for (Some ''11.858.570/0003-03''))) = Some (FILIAIS ! 1)
   \<and> getFilialByCnpj (dest_doc (payload_for (Some ''00000000000000''))) = None
   \<and> map note_id
       (store_notes
          (addNotes (nth [''id0'', ''id1'']) (nth [10, 11])
             [(''a.xml'', payload_for (Some ''11.858.570/0003-03'')),
              (''b.xml'', payload_for (Some ''00000000000000''))]
             initialStore)) = [''id0'', ''id1'']
   \<and> map filial
       (store_notes
          (addNotes (nth [''id0'', ''id1'']) (nth [10, 11])
             [(''a.xml'', payload_for (Some ''11.858.570/0003-03'')),
              (''b.xml'', payload_for (Some ''00000000000000''))]
             initialStore)) = [Some (FILIAIS ! 1), None]"
  by (simp add: dest_doc_payload_for resolve_capim_grosso resolve_zero_id addNotes_def
        newNote_def initialStore_def identifyFilial_eq)

text \<open>
  Claim C4, amended. For every batch of \<open>N\<close> entries, whether or not their buyer tax ids
  resolve, \<open>addNotes\<close> completes and appends \<open>N\<close> notes in input order after the existing
  ones: the \<open>k\<close>-th new note is pending, carries the \<open>k\<close>-th entry's file name and payload, and
  its \<open>filial\<close> is the unit its buyer tax id resolves to, \<open>null\<close> when it resolves to none.
  The selection is unchanged. The action returns nothing: neither ids nor failures.
\<close>

theorem addNotes_ingests_every_entry:
  "length (store_notes (addNotes gen clock es s)) = length (store_notes s) + length es
   \<and> take (length (store_notes s)) (store_notes (addNotes gen clock es s)) = store_notes s
   \<and> (\<forall>k < length es.
        store_notes (addNotes gen clock es s) ! (length (store_notes s) + k) =
          \<lparr>note_id = gen k, filename = fst (es ! k), data = snd (es ! k),
            processedAt = clock k, launchInfo = Some pendingInfo,
            filial = getFilialByCnpj (dest_doc (snd (es ! k)))\<rparr>)
   \<and> selectedNoteId (addNotes gen clock es s) = selectedNoteId s
   \<and> perform (addNotes gen clock es) s = Inr (addNotes gen clock es s)"
proof (intro conjI allI impI)
  show "length (store_notes (addNotes gen clock es s)) = length (store_notes s) + length es"
    by (simp add: store_notes_addNotes)
  show "take (length (store_notes s)) (store_notes (addNotes gen clock es s)) = store_notes s"
    by (simp add: store_notes_addNotes)
  show "selectedNoteId (addNotes gen clock es s) = selectedNoteId s"
    by (simp add: addNotes_def)
  show "perform (addNotes gen clock es) s = Inr (addNotes gen clock es s)"
    by (simp add: perform_def)
next
  fix k
  assume k: "k < length es"
  obtain fname d where e: "es ! k = (fname, d)" by (cases "es ! k")
  from k have "enumerate 0 es ! k = (k, es ! k)"
    by (simp add: nth_enumerate_eq)
  with k e show "store_notes (addNotes gen clock es s) ! (length (store_notes s) + k) =
          \<lparr>note_id = gen k, filename = fst (es ! k), data = snd (es ! k),
            processedAt = clock k, launchInfo = Some pendingInfo,
            filial = getFilialByCnpj (dest_doc (snd (es ! k)))\<rparr>"
    by (simp add: store_notes_addNotes nth_append newNote_def identifyFilial_eq)
qed

theorem addNotes_ingests_every_entry_witness:
  "length (store_notes
      (addNotes (nth [''id0'', ''id1'']) (nth [10, 11])
         [(''a.xml'', payload_for (Some ''11.858.570/0003-03'')),
          (''b.xml'', payload_for (Some ''00000000000000''))]
         one_note_store)) = 3
   \<and> store_notes
        (addNotes (nth [''id0'', ''id1'']) (nth [10, 11])
           [(''a.xml'', payload_for (Some ''11.858.570/0003-03'')),
            (''b.xml'', payload_for (Some ''00000000000000''))]
           one_note_store) ! 2 =
       \<lparr>note_id = ''id1'', filename = ''b.xml'', data = payload_for (Some ''00000000000000''),
        processedAt = 11, launchInfo = Some pendingInfo, filial = None\<rparr>"
proof -
  let ?es = "[(''a.xml'', payload_for (Some ''11.858.570/0003-03'')),
              (''b.xml'', payload_for (Some ''00000000000000''))]"
  have len: "length (store_notes one_note_store) = 1"
    by (simp add: one_note_store_eq)
  have k: "(1::nat) < length ?es" by simp
  from addNotes_ingests_every_entry [of "nth [''id0'', ''id1'']" "nth [10, 11]" ?es one_note_store]
  have a: "length (store_notes (addNotes (nth [''id0'', ''id1'']) (nth [10, 11]) ?es one_note_store)) =
           length (store_notes one_note_store) + length ?es"
    and b: "\<forall>k < length ?es.
        store_notes (addNotes (nth [''id0'', ''id1'']) (nth [10, 11]) ?es one_note_store) !
          (length (store_notes one_note_store) + k) =
          \<lparr>note_id = nth [''id0'', ''id1''] k, filename = fst (?es ! k), data = snd (?es ! k),
            processedAt = nth [10, 11] k, launchInfo = Some pendingInfo,
            filial = getFilialByCnpj (dest_doc (snd (?es ! k)))\<rparr>"
    by blast+
  from b k have
    "store_notes (addNotes (nth [''id0'', ''id1'']) (nth [10, 11]) ?es one_note_store) !
          (length (store_notes one_note_store) + 1) =
          \<lparr>note_id = nth [''id0'', ''id1''] 1, filename = fst (?es ! 1), data = snd (?es ! 1),
            processedAt = nth [10, 11] 1, launchInfo = Some pendingInfo,
            filial = getFilialByCnpj (dest_doc (snd (?es ! 1)))\<rparr>"
    by blast
  with a len show ?thesis
    by (simp add: dest_doc_payload_for resolve_zero_id numeral_2_eq_2)
qed

section \<open>The headquarters of the catalogue\<close>

lemma getMatrizIn_none:
  assumes "\<forall>f \<in> set fs. codigo f \<noteq> 1"
  shows "getMatrizIn fs = None"
  using assms by (induction fs) (simp_all add: getMatrizIn_def)

text \<open>
  Claim C5, as stated, fails: nothing in the code counts the headquarters units and nothing
  raises \<open>ConfigurationInvariantViolation\<close>. Over a catalogue without headquarters the index
  is built and \<open>getMatriz\<close> returns \<open>undefined\<close>; over one with two units of code 1 and type
  headquarters the index is built and \<open>getMatriz\<close> returns the first.
\<close>

theorem no_startup_check_counterexample:
  "headquartersCount [] \<noteq> 1
   \<and> initRegistry [] \<noteq> Inl ConfigurationInvariantViolation
   \<and> getMatrizIn [] = None
   \<and> headquartersCount [hd FILIAIS, hd FILIAIS] \<noteq> 1
   \<and> initRegistry [hd FILIAIS, hd FILIAIS] \<noteq> Inl ConfigurationInvariantViolation
   \<and> getMatrizIn [hd FILIAIS, hd FILIAIS] = Some (hd FILIAIS)"
  using hd_FILIAIS by (simp add: headquartersCount_def initRegistry_def getMatrizIn_def)

text \<open>
  Claim C5, amended. The compiled-in catalogue has exactly one unit of type headquarters;
  it is the unit of code 1 with the headquarters' tax id, and \<open>getMatriz\<close> returns it. The
  count is not checked: for every catalogue, whatever its number of headquarters,
  initialisation completes with the index, in which a tax id stands for the last admitted
  unit of the catalogue with that id, and \<open>getMatriz\<close> returns the first unit of code 1 in
  catalogue order, wherever it stands, or \<open>undefined\<close> when there is none.
\<close>

theorem catalogue_headquarters_unchecked:
  "headquartersCount FILIAIS = 1
   \<and> (\<exists>m. getMatriz = Some m \<and> tipo m = Matriz \<and> codigo m = 1 \<and> cnpj m = CNPJ_MATRIZ)
   \<and> initRegistry fs = Inr (buildIndex fs)
   \<and> buildIndex fs k = find (\<lambda>f. cnpj f = k) (rev (filter admitted fs))
   \<and> ((\<forall>f \<in> set fs. codigo f \<noteq> 1) \<longrightarrow> getMatrizIn fs = None)
   \<and> ((\<forall>g \<in> set pre. codigo g \<noteq> 1) \<and> codigo f = 1 \<longrightarrow> getMatrizIn (pre @ f # fs) = Some f)"
proof (intro conjI impI)
  show "headquartersCount FILIAIS = 1"
    by (simp add: headquartersCount_def FILIAIS_def)
  from getMatriz_hd hd_FILIAIS
  show "\<exists>m. getMatriz = Some m \<and> tipo m = Matriz \<and> codigo m = 1 \<and> cnpj m = CNPJ_MATRIZ"
    by blast
  show "initRegistry fs = Inr (buildIndex fs)"
    by (simp add: initRegistry_def)
  show "buildIndex fs k = find (\<lambda>f. cnpj f = k) (rev (filter admitted fs))"
    by (rule buildIndex_find)
next
  assume "\<forall>f \<in> set fs. codigo f \<noteq> 1"
  then show "getMatrizIn fs = None" by (rule getMatrizIn_none)
next
  assume a: "(\<forall>g \<in> set pre. codigo g \<noteq> 1) \<and> codigo f = 1"
  then have "getMatrizIn pre = None" by (intro getMatrizIn_none) simp
  then have "find (\<lambda>f. codigo f = 1) pre = None" by (simp add: getMatrizIn_def)
  with a show "getMatrizIn (pre @ f # fs) = Some f"
    by (simp add: getMatrizIn_def find_append_case)
qed

theorem catalogue_headquarters_unchecked_witness:
  "initRegistry [] = Inr Map.empty
   \<and> buildIndex [FILIAIS ! 0, FILIAIS ! 10] CNPJ_MATRIZ = Some (FILIAIS ! 0)
   \<and> getMatrizIn [FILIAIS ! 1] = None
   \<and> getMatrizIn [FILIAIS ! 0, FILIAIS ! 1] = Some (FILIAIS ! 0)
   \<and> getMatrizIn [FILIAIS ! 1, FILIAIS ! 0] = Some (FILIAIS ! 0)
   \<and> getMatrizIn [FILIAIS ! 1, FILIAIS ! 0, hd FILIAIS] = Some (FILIAIS ! 0)"
proof -
  have a: "\<forall>f \<in> set [FILIAIS ! 1]. codigo f \<noteq> 1" by (simp add: FILIAIS_def)
  have b: "codigo (FILIAIS ! 0) = 1" by (simp add: FILIAIS_def)
  have e: "\<forall>g \<in> set ([] :: Filial list). codigo g \<noteq> 1" by simp
  from catalogue_headquarters_unchecked [of "[]" "''''" "[]" "FILIAIS ! 0"]
  have "initRegistry [] = Inr Map.empty" by (simp add: buildIndex_def)
  moreover from catalogue_headquarters_unchecked
      [of "[FILIAIS ! 0, FILIAIS ! 10]" CNPJ_MATRIZ "[]" "FILIAIS ! 0"]
  have "buildIndex [FILIAIS ! 0, FILIAIS ! 10] CNPJ_MATRIZ =
          find (\<lambda>f. cnpj f = CNPJ_MATRIZ) (rev (filter admitted [FILIAIS ! 0, FILIAIS ! 10]))"
    by blast
  then have "buildIndex [FILIAIS ! 0, FILIAIS ! 10] CNPJ_MATRIZ = Some (FILIAIS ! 0)"
    by (simp add: FILIAIS_def admitted_def CNPJ_MATRIZ_def)
  moreover from catalogue_headquarters_unchecked [of "[FILIAIS ! 1]" "''''" "[]" "FILIAIS ! 0"] a
  have "getMatrizIn [FILIAIS ! 1] = None" by blast
  moreover from catalogue_headquarters_unchecked [of "[FILIAIS ! 1]" "''''" "[]" "FILIAIS ! 0"] b e
  have "getMatrizIn ([] @ [FILIAIS ! 0, FILIAIS ! 1]) = Some (FILIAIS ! 0)" by blast
  then have "getMatrizIn [FILIAIS ! 0, FILIAIS ! 1] = Some (FILIAIS ! 0)" by simp
  moreover from catalogue_headquarters_unchecked [of "[]" "''''" "[FILIAIS ! 1]" "FILIAIS ! 0"] a b
  have "getMatrizIn ([FILIAIS ! 1] @ [FILIAIS ! 0]) = Some (FILIAIS ! 0)" by blast
  then have "getMatrizIn [FILIAIS ! 1, FILIAIS ! 0] = Some (FILIAIS ! 0)" by simp
  moreover from catalogue_headquarters_unchecked
      [of "[hd FILIAIS]" "''''" "[FILIAIS ! 1]" "FILIAIS ! 0"] a b
  have "getMatrizIn ([FILIAIS ! 1] @ [FILIAIS ! 0, hd FILIAIS]) = Some (FILIAIS ! 0)" by blast
  then have "getMatrizIn [FILIAIS ! 1, FILIAIS ! 0, hd FILIAIS] = Some (FILIAIS ! 0)" by simp
  ultimately show ?thesis by blast
qed

section \<open>Transitions on an unknown id\<close>

lemma map_unknown_id:
  assumes "i \<notin> note_id ` set ns"
  shows "map (\<lambda>n. if note_id n = i then f n else n) ns = ns"
  using assms by (induction ns) auto

lemma note_ids_one_note_store: "note_ids one_note_store = {''n1''}"
  by (simp add: note_ids_def one_note_store_eq)

text \<open>
  Claim C6, as stated, fails: the three actions raise nothing. On an id that no note has,
  each of them completes.
\<close>

theorem unknown_id_counterexample:
  "''zz'' \<notin> note_ids one_note_store
   \<and> perform (markAsLaunched ''zz'' None None 5) one_note_store \<noteq> Inl NotFound
   \<and> perform (markAsRejected ''zz'' ''dup'' None 5) one_note_store \<noteq> Inl NotFound
   \<and> perform (resetLaunchStatus ''zz'') one_note_store \<noteq> Inl NotFound"
  by (simp add: note_ids_one_note_store perform_def)

text \<open>
  Claim C6, amended. For every id that no note of the collection has, each of launch, reject
  and reset completes without an error and leaves the store, collection and selection,
  unchanged.
\<close>

theorem unknown_id_is_noop:
  assumes "i \<notin> note_ids s"
  shows "perform (markAsLaunched i operatorName obs now) s = Inr s
       \<and> perform (markAsRejected i reason operatorName now) s = Inr s
       \<and> perform (resetLaunchStatus i) s = Inr s"
  using assms
  by (simp add: perform_def markAsLaunched_def markAsRejected_def resetLaunchStatus_def
        note_ids_def map_unknown_id)

theorem unknown_id_is_noop_witness:
  "perform (markAsLaunched ''zz'' None (Some ''ok'') 5) one_note_store = Inr one_note_store
   \<and> perform (markAsRejected ''zz'' ''dup'' None 5) one_note_store = Inr one_note_store
   \<and> perform (resetLaunchStatus ''zz'') one_note_store = Inr one_note_store"
proof -
  have "''zz'' \<notin> note_ids one_note_store"
    by (simp add: note_ids_one_note_store)
  from unknown_id_is_noop [OF this, of None "Some ''ok''" 5 "''dup''"] show ?thesis .
qed

section \<open>The frame of the lifecycle transitions\<close>

lemma non_lifecycle_markAsLaunched:
  "map non_lifecycle (store_notes (markAsLaunched i operatorName obs now s)) =
   map non_lifecycle (store_notes s)"
  by (simp add: markAsLaunched_def non_lifecycle_def)

lemma non_lifecycle_markAsRejected:
  "map non_lifecycle (store_notes (markAsRejected i reason operatorName now s)) =
   map non_lifecycle (store_notes s)"
  by (simp add: markAsRejected_def non_lifecycle_def)

lemma non_lifecycle_resetLaunchStatus:
  "map non_lifecycle (store_notes (resetLaunchStatus i s)) = map non_lifecycle (store_notes s)"
  by (simp add: resetLaunchStatus_def non_lifecycle_def)

lemma non_lifecycle_apply_transition:
  "map non_lifecycle (store_notes (apply_transition t s)) = map non_lifecycle (store_notes s)"
  by (cases t)
     (simp_all add: non_lifecycle_markAsLaunched non_lifecycle_markAsRejected
        non_lifecycle_resetLaunchStatus)

lemma non_lifecycle_run_transitions:
  "map non_lifecycle (store_notes (run_transitions ts s)) = map non_lifecycle (store_notes s)"
  unfolding run_transitions_def
  by (induction ts arbitrary: s) (simp_all add: non_lifecycle_apply_transition)

text \<open>
  Claim C7. \<open>addNote\<close> appends one note whose \<open>filial\<close> is what the buyer tax id of the
  payload (\<open>data.dest?.doc\<close>) resolves to; after any sequence of launch, reject and reset
  transitions, on any ids, the collection has the same notes in the same order up to their
  lifecycle records: \<open>id\<close>, \<open>filename\<close>, \<open>data\<close>, \<open>processedAt\<close> and \<open>filial\<close> of every note
  are what they were, those of the new note what ingestion set.
\<close>

theorem filial_fixed_at_ingestion:
  "map non_lifecycle (store_notes (run_transitions ts (addNote newId now fname d s))) =
     map non_lifecycle (store_notes s) @
       [\<lparr>note_id = newId, filename = fname, data = d, processedAt = now,
         launchInfo = None, filial = getFilialByCnpj (dest_doc d)\<rparr>]"
  by (simp add: non_lifecycle_run_transitions addNote_def newNote_def non_lifecycle_def
        identifyFilial_eq)

theorem filial_fixed_at_ingestion_witness:
  "map non_lifecycle
     (store_notes
        (run_transitions
           [Launch ''n2'' (Some ''ana'') None 6, Reset ''n2'', Reject ''n2'' ''dup'' None 7,
            Launch ''n1'' None None 8]
           (addNote ''n2'' 2 ''b.xml'' (payload_for (Some ''11.858.570/0003-03'')) one_note_store))) =
     [\<lparr>note_id = ''n1'', filename = ''a.xml'',
       data = payload_for (Some ''11.858.570/0003-03''), processedAt = 1,
       launchInfo = None, filial = Some (FILIAIS ! 1)\<rparr>,
      \<lparr>note_id = ''n2'', filename = ''b.xml'',
       data = payload_for (Some ''11.858.570/0003-03''), processedAt = 2,
       launchInfo = None, filial = Some (FILIAIS ! 1)\<rparr>]"
  using filial_fixed_at_ingestion
    [of "[Launch ''n2'' (Some ''ana'') None 6, Reset ''n2'', Reject ''n2'' ''dup'' None 7,
          Launch ''n1'' None None 8]"
        "''n2''" 2 "''b.xml''" "payload_for (Some ''11.858.570/0003-03'')" one_note_store]
  by (simp add: one_note_store_eq non_lifecycle_def dest_doc_payload_for resolve_capim_grosso)

section \<open>The selection after removal\<close>

text \<open>
  Claim C8. After \<open>removeNote i\<close> the selection is not \<open>i\<close> and no note has id \<open>i\<close>: a
  selection that was \<open>i\<close> becomes unset, any other selection is kept, and a selection that
  pointed into the collection still does. After \<open>clearNotes\<close> the selection is unset and
  the collection empty.
\<close>

theorem selection_never_dangles:
  "selectedNoteId (removeNote i s) \<noteq> Some i
   \<and> i \<notin> note_ids (removeNote i s)
   \<and> (selectedNoteId s = Some i \<longrightarrow> selectedNoteId (removeNote i s) = None)
   \<and> (selectedNoteId s \<noteq> Some i \<longrightarrow> selectedNoteId (removeNote i s) = selectedNoteId s)
   \<and> ((\<forall>j. selectedNoteId s = Some j \<longrightarrow> j \<in> note_ids s) \<longrightarrow>
        (\<forall>j. selectedNoteId (removeNote i s) = Some j \<longrightarrow> j \<in> note_ids (removeNote i s)))
   \<and> selectedNoteId (clearNotes s) = None
   \<and> store_notes (clearNotes s) = []"
proof (intro conjI impI allI)
  show "selectedNoteId (removeNote i s) \<noteq> Some i"
    by (simp add: removeNote_def)
  show "i \<notin> note_ids (removeNote i s)"
    by (auto simp: removeNote_def note_ids_def)
  show "selectedNoteId (clearNotes s) = None" and "store_notes (clearNotes s) = []"
    by (simp_all add: clearNotes_def)
next
  assume "selectedNoteId s = Some i"
  then show "selectedNoteId (removeNote i s) = None"
    by (simp add: removeNote_def)
next
  assume "selectedNoteId s \<noteq> Some i"
  then show "selectedNoteId (removeNote i s) = selectedNoteId s"
    by (simp add: removeNote_def)
next
  fix j
  assume inv: "\<forall>j. selectedNoteId s = Some j \<longrightarrow> j \<in> note_ids s"
    and sel: "selectedNoteId (removeNote i s) = Some j"
  from sel have ji: "j \<noteq> i" and "selectedNoteId s = Some j"
    by (auto simp: removeNote_def split: if_splits)
  with inv have "j \<in> note_ids s" by blast
  with ji show "j \<in> note_ids (removeNote i s)"
    by (auto simp: removeNote_def note_ids_def)
qed

lemma four_note_store_ids:
  "map note_id (store_notes four_note_store) = [''n0'', ''n1'', ''n2'', ''n3'']
   \<and> selectedNoteId four_note_store = Some ''n1''"
  by (simp add: four_note_store_def markAsRejected_def markAsLaunched_def addNote_def
        newNote_def legacy_note_def)

theorem selection_never_dangles_witness:
  "selectedNoteId (removeNote ''n1'' four_note_store) = None
   \<and> selectedNoteId (removeNote ''n2'' four_note_store) = Some ''n1''
   \<and> ''n1'' \<in> note_ids (removeNote ''n2'' four_note_store)
   \<and> selectedNoteId (clearNotes four_note_store) = None"
proof -
  have sel: "selectedNoteId four_note_store = Some ''n1''"
    by (simp add: four_note_store_ids)
  have ids: "note_ids four_note_store = set [''n0'', ''n1'', ''n2'', ''n3'']"
    using four_note_store_ids unfolding note_ids_def by (metis set_map)
  have inv: "\<forall>j. selectedNoteId four_note_store = Some j \<longrightarrow> j \<in> note_ids four_note_store"
    by (simp add: sel ids)
  from selection_never_dangles [of "''n1''" four_note_store] sel
  have a: "selectedNoteId (removeNote ''n1'' four_note_store) = None"
    and d: "selectedNoteId (clearNotes four_note_store) = None"
    by blast+
  from selection_never_dangles [of "''n2''" four_note_store] sel
  have b: "selectedNoteId (removeNote ''n2'' four_note_store) = Some ''n1''"
    by simp
  from selection_never_dangles [of "''n2''" four_note_store] inv
  have "\<forall>j. selectedNoteId (removeNote ''n2'' four_note_store) = Some j \<longrightarrow>
             j \<in> note_ids (removeNote ''n2'' four_note_store)"
    by blast
  with b have c: "''n1'' \<in> note_ids (removeNote ''n2'' four_note_store)"
    by blast
  from a b c d show ?thesis by blast
qed

section \<open>The progress percentage\<close>













lemmas double_eval =
  js_div_def js_times_def Math_round_def round_fraction_def scaled_def round_half_even_def
  bits.simps Let_def


lemma percentage_of_1_in_8:
  "js_div 1 8 = Dbl 4503599627370496 (- 55)
   \<and> js_times (js_div 1 8) 100 = Dbl 7036874417766400 (- 49)
   \<and> Math_round (js_times (js_div 1 8) 100) = Dbl 13 0"
  by (simp add: double_eval)











section \<open>The projections by status\<close>

text \<open>
  Claim C10. \<open>getPendingNotes\<close> returns the notes that have no lifecycle record together
  with those whose status is pending; \<open>getLaunchedNotes\<close> and \<open>getRejectedNotes\<close> return the
  notes that have a lifecycle record of status launched, respectively rejected. Each
  result lists its notes in the order of the collection.
\<close>

theorem status_projections:
  "getPendingNotes s =
     filter (\<lambda>n. case launchInfo n of None \<Rightarrow> True | Some li \<Rightarrow> status li = Pending) (store_notes s)
   \<and> getLaunchedNotes s =
     filter (\<lambda>n. case launchInfo n of None \<Rightarrow> False | Some li \<Rightarrow> status li = Launched) (store_notes s)
   \<and> getRejectedNotes s =
     filter (\<lambda>n. case launchInfo n of None \<Rightarrow> False | Some li \<Rightarrow> status li = Rejected) (store_notes s)
   \<and> subseq (getPendingNotes s) (store_notes s)
   \<and> subseq (getLaunchedNotes s) (store_notes s)
   \<and> subseq (getRejectedNotes s) (store_notes s)"
proof -
  have p: "getPendingNotes s =
     filter (\<lambda>n. case launchInfo n of None \<Rightarrow> True | Some li \<Rightarrow> status li = Pending) (store_notes s)"
    unfolding getPendingNotes_def by (rule filter_cong) (auto split: option.split)
  have l: "getLaunchedNotes s =
     filter (\<lambda>n. case launchInfo n of None \<Rightarrow> False | Some li \<Rightarrow> status li = Launched) (store_notes s)"
    unfolding getLaunchedNotes_def by (rule filter_cong) (auto split: option.split)
  have r: "getRejectedNotes s =
     filter (\<lambda>n. case launchInfo n of None \<Rightarrow> False | Some li \<Rightarrow> status li = Rejected) (store_notes s)"
    unfolding getRejectedNotes_def by (rule filter_cong) (auto split: option.split)
  have "subseq (getPendingNotes s) (store_notes s)"
    and "subseq (getLaunchedNotes s) (store_notes s)"
    and "subseq (getRejectedNotes s) (store_notes s)"
    by (simp_all add: getPendingNotes_def getLaunchedNotes_def getRejectedNotes_def)
  with p l r show ?thesis by blast
qed

theorem status_projections_witness:
  "map note_id (getPendingNotes four_note_store) = [''n0'', ''n1'']
   \<and> map note_id (getLaunchedNotes four_note_store) = [''n2'']
   \<and> map note_id (getRejectedNotes four_note_store) = [''n3'']"
proof -
  have ns: "store_notes four_note_store =
      [legacy_note,
       \<lparr>note_id = ''n1'', filename = ''a.xml'', data = payload_for None, processedAt = 1,
        launchInfo = Some pendingInfo, filial = None\<rparr>,
       \<lparr>note_id = ''n2'', filename = ''b.xml'', data = payload_for None, processedAt = 2,
        launchInfo = Some (pendingInfo\<lparr>status := Launched, launchedAt := Some 8\<rparr>), filial = None\<rparr>,
       \<lparr>note_id = ''n3'', filename = ''c.xml'', data = payload_for None, processedAt = 3,
        launchInfo = Some (pendingInfo\<lparr>status := Rejected, rejectedAt := Some 9,
                                      rejectionReason := Some ''dup''\<rparr>), filial = None\<rparr>]"
    by (simp add: four_note_store_def markAsRejected_def markAsLaunched_def addNote_def
          newNote_def legacy_note_def spreadLaunchInfo_def pendingInfo_def identifyFilial_eq
          dest_doc_payload_for getFilialByCnpj_def normalizeCnpj_def)
  from status_projections [of four_note_store]
  have "getPendingNotes four_note_store =
          filter (\<lambda>n. case launchInfo n of None \<Rightarrow> True | Some li \<Rightarrow> status li = Pending)
            (store_notes four_note_store)"
    and "getLaunchedNotes four_note_store =
          filter (\<lambda>n. case launchInfo n of None \<Rightarrow> False | Some li \<Rightarrow> status li = Launched)
            (store_notes four_note_store)"
    and "getRejectedNotes four_note_store =
          filter (\<lambda>n. case launchInfo n of None \<Rightarrow> False | Some li \<Rightarrow> status li = Rejected)
            (store_notes four_note_store)"
    by blast+
  then show ?thesis
    by (simp add: ns legacy_note_def pendingInfo_def)
qed

end
